theory Spec2Isabelle
  imports Complex_Main "HOL-Library.AList" "HOL-Library.Log_Nat"
begin

section \<open>The dashboard's data pipeline (src/app.py)\<close>

text \<open>
  The development embeds the data-acquisition and aggregation pipeline of \<^verbatim>\<open>src/app.py\<close>:
  the decorated fetch operations, the sentiment aggregation, the advisory mapping, the price
  alert check and the control flow of \<^verbatim>\<open>main\<close>.

  Conventions.
  \<^item> A Python float is the \<^typ>\<open>real\<close> number it denotes, and comparisons are exact. The
    decimal literals of the advisory thresholds and of the alert check are read as decimals.
    The arithmetic of the mean is the rounded one of double precision (see the subsection
    on double precision).
  \<^item> Strings are \<^typ>\<open>string\<close>: a Python string is the list of the bytes of its UTF-8
    encoding, on which the substring test gives the same answer as on the code points. The
    pictographs in the user-visible messages are left out. \<^verbatim>\<open>str.lower\<close>, which decides the
    match of a comment, is a parameter of the functions that use it; \<^verbatim>\<open>str.upper\<close>, used in
    messages only, acts on the ASCII letters.
  \<^item> Library functions whose code is not part of the repository and whose result a claim
    depends on (the sentiment scorer, \<^verbatim>\<open>Series.mean\<close>, \<^verbatim>\<open>str.lower\<close>) are parameters.
  \<^item> Everything outside the process (the HTTP services, the clock, the page) is a field of
    the record \<open>state\<close>; a function that has an effect takes the state and returns the new one.
  \<^item> A raised exception is the \<open>Inl\<close> branch of a sum.
\<close>

subsection \<open>Exceptions, messages and the page\<close>

datatype exn =
    Exception string
  | TypeError string
  | KeyError string
  | RetryError exn

fun str :: "exn \<Rightarrow> string" where
  "str (Exception msg) = msg"
| "str (TypeError msg) = msg"
| "str (KeyError msg) = msg"
| "str (RetryError e) = ''RetryError''"

text \<open>An f-string: literal pieces and formatted amounts (\<^verbatim>\<open>${x:,.2f}\<close>).\<close>

datatype part = Lit string | Usd real

type_synonym message = "part list"

text \<open>The columns of the pandas frame built by \<^verbatim>\<open>analyze_comments\<close>.\<close>

record analysis_frame =
  Comment :: "string list"
  Polarity :: "real list"
  Sentiment :: "string list"

text \<open>The JSON object of one coin, reduced to the fields the page reads.\<close>

record coin_info =
  name :: string
  symbol :: string
  current_price :: real
  price_change_percentage_24h :: real
  market_cap :: real
  description :: string
  homepage :: "string list"

datatype period = Day1 | Days7 | Days30 | Days90 | Days180 | Year1

text \<open>What the script puts on the page, in order.\<close>

datatype ui_event =
    StMarkdown string
  | StHeader string
  | StError message
  | StWarning message
  | StSuccess message
  | StInfo message
  | StDataframe analysis_frame
  | StCoinInfo coin_info
  | StPlotlyChart "real list" "real list" string period

subsection \<open>The outside world\<close>

text \<open>
  One entry of the \<^verbatim>\<open>prices\<close> array of the market chart: a pair
  \<^verbatim>\<open>[timestamp_ms, price]\<close>, or an entry on which the unpacking \<^verbatim>\<open>for d, p in data\<close> or the
  conversion of the timestamp raises.
\<close>

datatype json_point = Point real real | Malformed

text \<open>
  What a request to a service yields. \<open>Failure\<close> stands for everything that raises inside
  the \<^verbatim>\<open>try\<close> block of the caller: a transport error, a timeout, a non-2xx status
  (\<^verbatim>\<open>raise_for_status\<close>).
\<close>

datatype reply =
    Failure string
  | CoinsJson "(string \<times> string) list"
  | InfoJson coin_info
  | ChartJson "json_point list option"
  | HotJson "string list"
  | CommentsJson "string list"

datatype endpoint =
    CoinsList
  | CoinDetail string
  | MarketChart string int
  | RedditHot
  | RedditComments string

type_synonym coin_listing = "(string \<times> string) list"

type_synonym price_series = "real list \<times> real list"

record state =
  clock :: real
  pending :: "reply list"
  sent :: "endpoint list"
  slept :: "real list"
  screen :: "ui_event list"
  last_time_called :: real
  coins_cache :: "unit \<rightharpoonup> (coin_listing \<times> real)"
  info_cache :: "string \<rightharpoonup> (coin_info option \<times> real)"
  market_cache :: "(string \<times> int) \<rightharpoonup> (price_series \<times> real)"
  analyze_clicked :: bool

text \<open>A fresh process: nothing cached, nothing shown, \<^verbatim>\<open>last_time_called = 0.0\<close>.\<close>

definition fresh :: "real \<Rightarrow> reply list \<Rightarrow> state" where
  "fresh now replies =
     \<lparr>clock = now, pending = replies, sent = [], slept = [], screen = [],
      last_time_called = 0, coins_cache = Map.empty, info_cache = Map.empty,
      market_cache = Map.empty, analyze_clicked = False\<rparr>"

text \<open>\<^verbatim>\<open>time.sleep\<close>: the clock advances and the pause is logged.\<close>

definition sleep :: "real \<Rightarrow> state \<Rightarrow> state" where
  "sleep d s = s\<lparr>clock := clock s + d, slept := slept s @ [d]\<rparr>"

text \<open>
  A request takes the next pending reply of the world and logs the endpoint; with no
  reply pending the request times out.
\<close>

definition request :: "endpoint \<Rightarrow> state \<Rightarrow> reply \<times> state" where
  "request ep s =
     (case pending s of
        [] \<Rightarrow> (Failure ''timeout'', s\<lparr>sent := sent s @ [ep]\<rparr>)
      | r # rs \<Rightarrow> (r, s\<lparr>pending := rs, sent := sent s @ [ep]\<rparr>))"

definition emit :: "ui_event \<Rightarrow> state \<Rightarrow> state" where
  "emit ev s = s\<lparr>screen := screen s @ [ev]\<rparr>"

subsection \<open>Analysis functions\<close>

text \<open>The lambda of line 396.\<close>

definition sentiment_label :: "real \<Rightarrow> string" where
  "sentiment_label x =
     (if x > 0 then ''Positive'' else (if x < 0 then ''Negative'' else ''Neutral''))"

text \<open>
  \<^verbatim>\<open>analyze_comments\<close> (lines 386-414). The scorer \<^verbatim>\<open>TextBlob(c).sentiment.polarity\<close> and
  the method \<^verbatim>\<open>Series.mean\<close> of pandas are parameters.
\<close>

definition analyze_comments ::
  "(string \<Rightarrow> real) \<Rightarrow> (real list \<Rightarrow> real) \<Rightarrow> string list \<Rightarrow> state \<Rightarrow> real \<times> state" where
  "analyze_comments polarity mean comments s =
     (if comments = [] then (0, s)
      else
        let analysis = \<lparr>Comment = comments, Polarity = map polarity comments, Sentiment = []\<rparr>;
            analysis = analysis\<lparr>Sentiment := map sentiment_label (Polarity analysis)\<rparr>;
            s = emit (StDataframe analysis) s
        in (mean (Polarity analysis), s))"

definition strong_positive :: message where
  "strong_positive = [Lit ''Strong positive sentiment! Potentially good buying opportunity.'']"

definition moderately_positive :: message where
  "moderately_positive = [Lit ''Moderately positive sentiment. Consider buying with caution.'']"

definition strong_negative :: message where
  "strong_negative = [Lit ''Strong negative sentiment! Consider waiting or selling.'']"

definition moderately_negative :: message where
  "moderately_negative = [Lit ''Moderately negative sentiment. Be cautious with investments.'']"

definition neutral :: message where
  "neutral = [Lit ''Neutral sentiment. Monitor the market before deciding.'']"

text \<open>\<^verbatim>\<open>provide_investment_advice\<close> (lines 416-427).\<close>

definition provide_investment_advice :: "real \<Rightarrow> state \<Rightarrow> state" where
  "provide_investment_advice score s =
     (if score > 0.1 then emit (StSuccess strong_positive) s
      else if score > 0 then emit (StInfo moderately_positive) s
      else if score < -0.1 then emit (StError strong_negative) s
      else if score < 0 then emit (StWarning moderately_negative) s
      else emit (StWarning neutral) s)"

text \<open>
  \<^verbatim>\<open>str.upper\<close> on ASCII text, the action of \<^verbatim>\<open>str.lower\<close> on ASCII text (the instance of the
  parameter used where a run is evaluated), and the substring test \<^verbatim>\<open>sub in s\<close>.
\<close>

definition ascii_uppercase :: string where
  "ascii_uppercase = ''ABCDEFGHIJKLMNOPQRSTUVWXYZ''"

definition ascii_lowercase :: string where
  "ascii_lowercase = ''abcdefghijklmnopqrstuvwxyz''"

definition upper_char :: "char \<Rightarrow> char" where
  "upper_char c =
     (case map_of (zip ascii_lowercase ascii_uppercase) c of Some u \<Rightarrow> u | None \<Rightarrow> c)"

definition lower_char :: "char \<Rightarrow> char" where
  "lower_char c =
     (case map_of (zip ascii_uppercase ascii_lowercase) c of Some l \<Rightarrow> l | None \<Rightarrow> c)"

definition upper :: "string \<Rightarrow> string" where
  "upper = map upper_char"

definition ascii_lower :: "string \<Rightarrow> string" where
  "ascii_lower = map lower_char"

fun starts_with :: "string \<Rightarrow> string \<Rightarrow> bool" where
  "starts_with [] s = True"
| "starts_with (x # xs) [] = False"
| "starts_with (x # xs) (y # ys) = (x = y \<and> starts_with xs ys)"

fun substring_of :: "string \<Rightarrow> string \<Rightarrow> bool" where
  "substring_of sub [] = (sub = [])"
| "substring_of sub (c # s) = (starts_with sub (c # s) \<or> substring_of sub s)"

text \<open>The slice \<^verbatim>\<open>xs[:n]\<close>; a negative \<open>n\<close> counts from the end.\<close>

definition slice_to :: "'a list \<Rightarrow> int \<Rightarrow> 'a list" where
  "slice_to xs n =
     (if n \<ge> 0 then take (nat n) xs else take (nat (int (length xs) + n)) xs)"

text \<open>The price alert check at the end of the market card of \<^verbatim>\<open>main\<close> (lines 588-592).\<close>

definition reached_message :: "string \<Rightarrow> real \<Rightarrow> message" where
  "reached_message coin_symbol target_price =
     [Lit ''Price alert! '', Lit (upper coin_symbol), Lit '' reached '', Usd target_price]"

definition dropped_message :: "string \<Rightarrow> real \<Rightarrow> message" where
  "dropped_message coin_symbol target_price =
     [Lit ''Price alert! '', Lit (upper coin_symbol), Lit '' dropped below '', Usd target_price]"

definition price_alert_check :: "string \<Rightarrow> real list \<Rightarrow> real \<Rightarrow> state \<Rightarrow> state" where
  "price_alert_check coin_symbol prices target_price s =
     (let current_price = (if prices \<noteq> [] then last prices else 0) in
      if current_price \<ge> target_price \<and> target_price > 0
        then emit (StSuccess (reached_message coin_symbol target_price)) s
      else if current_price \<le> target_price \<and> target_price > 0
        then emit (StWarning (dropped_message coin_symbol target_price)) s
      else s)"

subsection \<open>The decorators\<close>

text \<open>
  \<^verbatim>\<open>rate_limited\<close> (lines 285-302). The variable \<^verbatim>\<open>last_time_called\<close> of the closure is a
  field of the state; the decorator is applied to one function only.
\<close>

definition rate_limited :: "real \<Rightarrow> (state \<Rightarrow> 'a \<times> state) \<Rightarrow> state \<Rightarrow> 'a \<times> state" where
  "rate_limited max_per_second func s =
     (let min_interval = 1 / max_per_second;
          elapsed = clock s - last_time_called s;
          wait = min_interval - elapsed;
          s = (if wait > 0 then sleep wait s else s);
          s = s\<lparr>last_time_called := clock s\<rparr>
      in func s)"

text \<open>
  Modelled from the spec: the Retry Policy (section 4.2), which the source takes from the
  tenacity package as
  \<^verbatim>\<open>@retry(stop=stop_after_attempt(3), wait=wait_exponential(multiplier=1, min=4, max=10))\<close>.
  The operation is invoked until it returns without raising or the attempt ceiling is
  reached; a failed attempt is followed by a pause of \<open>min(ceiling, multiplier * 2^attempt)\<close>
  seconds, at least the floor; after the last attempt the failure is raised to the caller.
\<close>

definition wait_exponential :: "real \<Rightarrow> real \<Rightarrow> real \<Rightarrow> nat \<Rightarrow> real" where
  "wait_exponential multiplier floor_s ceiling_s attempt =
     max floor_s (min ceiling_s (multiplier * 2 ^ attempt))"

fun retry_from ::
  "nat \<Rightarrow> nat \<Rightarrow> (state \<Rightarrow> (exn + 'a) \<times> state) \<Rightarrow> state \<Rightarrow> (exn + 'a) \<times> state" where
  "retry_from left attempt func s =
     (case func s of
        (Inr v, s') \<Rightarrow> (Inr v, s')
      | (Inl e, s') \<Rightarrow>
          (case left of
             0 \<Rightarrow> (Inl (RetryError e), s')
           | Suc left' \<Rightarrow>
               retry_from left' (Suc attempt) func (sleep (wait_exponential 1 4 10 attempt) s')))"

definition retry :: "(state \<Rightarrow> (exn + 'a) \<times> state) \<Rightarrow> state \<Rightarrow> (exn + 'a) \<times> state" where
  "retry func = retry_from 2 1 func"

text \<open>
  Modelled from the spec: the Cache Layer (section 4.3), which the source takes from
  Streamlit as \<^verbatim>\<open>@st.cache_data(ttl=...)\<close>. The cache is keyed by the argument tuple; a live
  entry (\<open>now - creation_time < ttl\<close>) is returned without invoking the operation;
  otherwise the operation is invoked and its returned value stored with the current time.
  An exception of the operation passes through and nothing is stored.
\<close>

definition cache_data ::
  "real \<Rightarrow> ('k \<rightharpoonup> ('v \<times> real)) \<Rightarrow> 'k \<Rightarrow> (state \<Rightarrow> (exn + 'v) \<times> state) \<Rightarrow> state
     \<Rightarrow> ((exn + 'v) \<times> ('k \<rightharpoonup> ('v \<times> real))) \<times> state" where
  "cache_data ttl cache key func s =
     (let miss =
            (case func s of
               (Inr v, s') \<Rightarrow> ((Inr v, cache(key \<mapsto> (v, clock s'))), s')
             | (Inl e, s') \<Rightarrow> ((Inl e, cache), s'))
      in case cache key of
           None \<Rightarrow> miss
         | Some (v, created) \<Rightarrow> if clock s - created < ttl then ((Inr v, cache), s) else miss)"

subsection \<open>Data fetching functions\<close>

text \<open>
  The dict comprehension \<^verbatim>\<open>{coin["id"]: coin["symbol"] for coin in response.json()}\<close>: a
  repeated id keeps its first position and takes the last symbol.
\<close>

definition dict_of :: "(string \<times> string) list \<Rightarrow> coin_listing" where
  "dict_of coins = fold (\<lambda>(k, v). AList.update k v) coins []"

text \<open>The body of \<^verbatim>\<open>fetch_all_coins\<close> (lines 310-321), below its decorators.\<close>

definition fetch_all_coins_body :: "state \<Rightarrow> (exn + coin_listing) \<times> state" where
  "fetch_all_coins_body s =
     (case request CoinsList s of
        (CoinsJson coins, s') \<Rightarrow> (Inr (dict_of coins), s')
      | (Failure msg, s') \<Rightarrow>
          (Inr [], emit (StError [Lit ''Failed to fetch coins: '', Lit msg]) s')
      | (_, s') \<Rightarrow>
          (Inr [], emit (StError [Lit ''Failed to fetch coins: '', Lit ''unexpected response'']) s'))"

definition fetch_all_coins :: "state \<Rightarrow> (exn + coin_listing) \<times> state" where
  "fetch_all_coins s =
     (case cache_data 3600 (coins_cache s) () (rate_limited 1 (retry fetch_all_coins_body)) s of
        ((r, cache), s') \<Rightarrow> (r, s'\<lparr>coins_cache := cache\<rparr>))"

text \<open>The body of \<^verbatim>\<open>fetch_coin_info\<close> (lines 325-336).\<close>

definition fetch_coin_info_body :: "string \<Rightarrow> state \<Rightarrow> (exn + coin_info option) \<times> state" where
  "fetch_coin_info_body coin_id s =
     (case request (CoinDetail coin_id) s of
        (InfoJson info, s') \<Rightarrow> (Inr (Some info), s')
      | (Failure msg, s') \<Rightarrow>
          (Inr None,
           emit (StError [Lit ''Failed to fetch info for '', Lit coin_id, Lit '': '', Lit msg]) s')
      | (_, s') \<Rightarrow>
          (Inr None,
           emit (StError [Lit ''Failed to fetch info for '', Lit coin_id, Lit '': '',
                          Lit ''unexpected response'']) s'))"

definition fetch_coin_info :: "string \<Rightarrow> state \<Rightarrow> (exn + coin_info option) \<times> state" where
  "fetch_coin_info coin_id s =
     (case cache_data 600 (info_cache s) coin_id (retry (fetch_coin_info_body coin_id)) s of
        ((r, cache), s') \<Rightarrow> (r, s'\<lparr>info_cache := cache\<rparr>))"

text \<open>
  The list comprehension and \<^verbatim>\<open>zip(*...)\<close> of lines 355-358: the dates
  (\<^verbatim>\<open>fromtimestamp(d / 1000)\<close>, kept as seconds) and the prices; an entry that does not unpack
  raises.
\<close>

fun unzip_points :: "json_point list \<Rightarrow> exn + price_series" where
  "unzip_points [] = Inr ([], [])"
| "unzip_points (Malformed # rest) = Inl (TypeError ''cannot unpack'')"
| "unzip_points (Point d p # rest) =
     (case unzip_points rest of
        Inl e \<Rightarrow> Inl e
      | Inr (dates, prices) \<Rightarrow> Inr (d / 1000 # dates, p # prices))"

text \<open>The body of \<^verbatim>\<open>fetch_market_data\<close> (lines 340-363).\<close>

definition fetch_market_data_body :: "string \<Rightarrow> int \<Rightarrow> state \<Rightarrow> (exn + price_series) \<times> state" where
  "fetch_market_data_body coin_id days s =
     (case request (MarketChart coin_id days) s of
        (ChartJson body, s') \<Rightarrow>
          (let data = (case body of None \<Rightarrow> [] | Some points \<Rightarrow> points) in
           if data \<noteq> [] then
             (case unzip_points data of
                Inr (dates, prices) \<Rightarrow> (Inr (dates, prices), s')
              | Inl e \<Rightarrow>
                  (Inr ([], []), emit (StError [Lit ''Failed to fetch market data: '', Lit (str e)]) s'))
           else (Inr ([], []), s'))
      | (Failure msg, s') \<Rightarrow>
          (Inr ([], []), emit (StError [Lit ''Failed to fetch market data: '', Lit msg]) s')
      | (_, s') \<Rightarrow>
          (Inr ([], []),
           emit (StError [Lit ''Failed to fetch market data: '', Lit ''unexpected response'']) s'))"

definition fetch_market_data :: "string \<Rightarrow> int \<Rightarrow> state \<Rightarrow> (exn + price_series) \<times> state" where
  "fetch_market_data coin_id days s =
     (case cache_data 300 (market_cache s) (coin_id, days)
             (retry (fetch_market_data_body coin_id days)) s of
        ((r, cache), s') \<Rightarrow> (r, s'\<lparr>market_cache := cache\<rparr>))"

text \<open>
  The loop of \<^verbatim>\<open>fetch_reddit_comments\<close> (lines 370-377) over the submissions of the hot
  listing. Reading the comment tree of a submission is one request; \<^verbatim>\<open>replace_more(limit=0)\<close>
  drops the unexpanded stubs and \<^verbatim>\<open>list()\<close> flattens the tree, so the reply is the list of
  comment bodies. The first parameter is \<^verbatim>\<open>str.lower\<close>.
\<close>

definition mentions :: "(string \<Rightarrow> string) \<Rightarrow> string \<Rightarrow> string \<Rightarrow> bool" where
  "mentions lower coin_symbol body = substring_of (lower coin_symbol) (lower body)"

fun scan_submissions ::
  "(string \<Rightarrow> string) \<Rightarrow> string \<Rightarrow> int \<Rightarrow> string list \<Rightarrow> string list \<Rightarrow> state \<Rightarrow> (exn + string list) \<times> state" where
  "scan_submissions lower coin_symbol limit [] comments s = (Inr comments, s)"
| "scan_submissions lower coin_symbol limit (submission # rest) comments s =
     (case request (RedditComments submission) s of
        (CommentsJson bodies, s') \<Rightarrow>
          (let comments = comments @ filter (mentions lower coin_symbol) bodies in
           if int (length comments) \<ge> limit then (Inr comments, s')
           else scan_submissions lower coin_symbol limit rest comments s')
      | (Failure msg, s') \<Rightarrow> (Inl (Exception msg), s')
      | (_, s') \<Rightarrow> (Inl (TypeError ''unexpected response''), s'))"

text \<open>The body of \<^verbatim>\<open>fetch_reddit_comments\<close> (lines 366-381) and the decorated function.\<close>

definition fetch_reddit_comments_body ::
  "(string \<Rightarrow> string) \<Rightarrow> string \<Rightarrow> int \<Rightarrow> state \<Rightarrow> (exn + string list) \<times> state" where
  "fetch_reddit_comments_body lower coin_symbol limit s =
     (case request RedditHot s of
        (HotJson submissions, s') \<Rightarrow>
          (case scan_submissions lower coin_symbol limit (take 10 submissions) [] s' of
             (Inr comments, s'') \<Rightarrow> (Inr (slice_to comments limit), s'')
           | (Inl e, s'') \<Rightarrow> (Inr [], emit (StError [Lit ''Reddit error: '', Lit (str e)]) s''))
      | (Failure msg, s') \<Rightarrow> (Inr [], emit (StError [Lit ''Reddit error: '', Lit msg]) s')
      | (_, s') \<Rightarrow>
          (Inr [], emit (StError [Lit ''Reddit error: '', Lit ''unexpected response'']) s'))"

definition fetch_reddit_comments ::
  "(string \<Rightarrow> string) \<Rightarrow> string \<Rightarrow> int \<Rightarrow> state \<Rightarrow> (exn + string list) \<times> state" where
  "fetch_reddit_comments lower coin_symbol limit = retry (fetch_reddit_comments_body lower coin_symbol limit)"

subsection \<open>The page\<close>

text \<open>\<^verbatim>\<open>display_coin_info\<close> and \<^verbatim>\<open>display_price_chart\<close>, each as one event of the page.\<close>

definition display_coin_info :: "coin_info option \<Rightarrow> state \<Rightarrow> state" where
  "display_coin_info info s = (case info of None \<Rightarrow> s | Some i \<Rightarrow> emit (StCoinInfo i) s)"

definition display_price_chart :: "real list \<Rightarrow> real list \<Rightarrow> string \<Rightarrow> period \<Rightarrow> state \<Rightarrow> state" where
  "display_price_chart dates prices coin_name time_period s =
     (if dates = [] \<or> prices = [] then s
      else emit (StPlotlyChart dates prices coin_name time_period) s)"

fun time_mapping :: "period \<Rightarrow> int" where
  "time_mapping Day1 = 1"
| "time_mapping Days7 = 7"
| "time_mapping Days30 = 30"
| "time_mapping Days90 = 90"
| "time_mapping Days180 = 180"
| "time_mapping Year1 = 365"

text \<open>The widgets of the left column, as the user has set them in this run.\<close>

record inputs =
  coin_select :: string
  time_select :: period
  price_alert :: real
  analyze_btn :: bool

text \<open>\<^verbatim>\<open>st.selectbox\<close>: the chosen option, the first one when the choice is not offered.\<close>

definition selectbox :: "string list \<Rightarrow> string \<Rightarrow> string" where
  "selectbox options choice = (if choice \<in> set options then choice else hd options)"

text \<open>How a run of the script ends: at its last line, at \<^verbatim>\<open>st.stop()\<close>, or with an exception.\<close>

datatype outcome = Finished | Stopped | Raised exn

text \<open>The coin information card (lines 548-557).\<close>

definition overview_card :: "string \<Rightarrow> state \<Rightarrow> (exn + coin_info option) \<times> state" where
  "overview_card selected_coin s =
     (let s = emit (StHeader ''Coin Overview'') (emit (StMarkdown ''glass-card analysis'') s) in
      case fetch_coin_info selected_coin s of
        (Inl e, s) \<Rightarrow> (Inl e, s)
      | (Inr coin_info, s) \<Rightarrow>
          (let s = (if coin_info \<noteq> None then display_coin_info coin_info s else s)
           in (Inr coin_info, emit (StMarkdown ''/div'') s)))"

text \<open>The sentiment analysis card (lines 560-572).\<close>

definition sentiment_card ::
  "(string \<Rightarrow> real) \<Rightarrow> (real list \<Rightarrow> real) \<Rightarrow> (string \<Rightarrow> string) \<Rightarrow> string \<Rightarrow> state
     \<Rightarrow> (exn + unit) \<times> state" where
  "sentiment_card polarity mean lower coin_symbol s =
     (let s = emit (StHeader ''Sentiment Analysis'') (emit (StMarkdown ''glass-card'') s) in
      case fetch_reddit_comments lower coin_symbol 50 s of
        (Inl e, s) \<Rightarrow> (Inl e, s)
      | (Inr comments, s) \<Rightarrow>
          (let s =
             (if comments \<noteq> [] then
                (case analyze_comments polarity mean comments s of
                   (score, s) \<Rightarrow> provide_investment_advice score s)
              else
                emit (StWarning [Lit ''No recent Reddit comments found mentioning '',
                                 Lit (upper coin_symbol)]) s)
           in (Inr (), emit (StMarkdown ''/div'') s)))"

text \<open>The market data card (lines 575-594).\<close>

definition market_card ::
  "string \<Rightarrow> string \<Rightarrow> coin_info option \<Rightarrow> period \<Rightarrow> real \<Rightarrow> state \<Rightarrow> (exn + unit) \<times> state" where
  "market_card selected_coin coin_symbol coin_info time_period target_price s =
     (let s = emit (StHeader ''Market Data'') (emit (StMarkdown ''glass-card market'') s) in
      case fetch_market_data selected_coin (time_mapping time_period) s of
        (Inl e, s) \<Rightarrow> (Inl e, s)
      | (Inr (dates, prices), s) \<Rightarrow>
          if dates \<noteq> [] \<and> prices \<noteq> [] then
            (case coin_info of
               None \<Rightarrow> (Inl (TypeError ''NoneType object is not subscriptable''), s)
             | Some info \<Rightarrow>
                 (let s = display_price_chart dates prices (name info) time_period s;
                      s = price_alert_check coin_symbol prices target_price s
                  in (Inr (), emit (StMarkdown ''/div'') s)))
          else (Inr (), emit (StMarkdown ''/div'') s))"

definition footer :: "state \<Rightarrow> outcome \<times> state" where
  "footer s = (Finished, emit (StMarkdown ''footer'') s)"

text \<open>\<^verbatim>\<open>main\<close> (lines 483-601).\<close>

definition main ::
  "(string \<Rightarrow> real) \<Rightarrow> (real list \<Rightarrow> real) \<Rightarrow> (string \<Rightarrow> string) \<Rightarrow> inputs \<Rightarrow> state
     \<Rightarrow> outcome \<times> state" where
  "main polarity mean lower inp s =
     (let s = emit (StMarkdown ''gradient-bg'') s;
          s = emit (StMarkdown ''hero'') s;
          s = emit (StMarkdown ''glass-card'') s;
          s = emit (StHeader ''Coin Selector'') s
      in
      case fetch_all_coins s of
        (Inl e, s) \<Rightarrow> (Raised e, s)
      | (Inr coins, s) \<Rightarrow>
          if coins = [] then
            (Stopped, emit (StError [Lit ''Failed to load cryptocurrency list'']) s)
          else
            (let selected_coin = selectbox (map fst coins) (coin_select inp);
                 time_period = time_select inp;
                 target_price = price_alert inp;
                 s = (if analyze_btn inp then s\<lparr>analyze_clicked := True\<rparr> else s);
                 s = emit (StMarkdown ''/div'') s
             in
             if analyze_clicked s then
               (case map_of coins selected_coin of
                  None \<Rightarrow> (Raised (KeyError selected_coin), s)
                | Some coin_symbol \<Rightarrow>
                    (case overview_card selected_coin s of
                       (Inl e, s) \<Rightarrow> (Raised e, s)
                     | (Inr coin_info, s) \<Rightarrow>
                         (case sentiment_card polarity mean lower coin_symbol s of
                            (Inl e, s) \<Rightarrow> (Raised e, s)
                          | (Inr u, s) \<Rightarrow>
                              (case market_card selected_coin coin_symbol coin_info
                                      time_period target_price s of
                                 (Inl e, s) \<Rightarrow> (Raised e, s)
                               | (Inr u, s) \<Rightarrow> footer s))))
             else footer s))"

subsection \<open>Double precision\<close>

text \<open>
  The polarities and their mean are Python floats: IEEE 754 binary64 numbers, each the real
  number it denotes. An arithmetic operation returns the exact result rounded to the nearest
  binary64 number, a tie going to the even significand. The significand has 53 bits and
  the least exponent is -1022 (below it the spacing stays that of the least binade).
  Overflow, infinities and NaN are not modelled.
\<close>

text \<open>Rounding to the nearest integer, a tie to the even one.\<close>

definition round_half_even :: "real \<Rightarrow> int" where
  "round_half_even y =
     (let f = \<lfloor>y\<rfloor> in
      if y - of_int f < 1/2 then f
      else if y - of_int f > 1/2 then f + 1
      else if even f then f else f + 1)"

text \<open>The integer \<open>e\<close> with \<open>2^e \<le> x < 2^(e+1)\<close>, for a positive \<open>x\<close>.\<close>

definition log2_floor :: "real \<Rightarrow> int" where
  "log2_floor x =
     (if 1 \<le> x then int (floorlog 2 (nat \<lfloor>x\<rfloor>)) - 1
      else - int (floorlog 2 (nat (\<lceil>1 / x\<rceil> - 1))))"

definition pow2 :: "int \<Rightarrow> real" where
  "pow2 e = (if 0 \<le> e then 2 ^ nat e else 1 / 2 ^ nat (- e))"

text \<open>The spacing of the binary64 numbers around \<open>x\<close>.\<close>

definition ulp :: "real \<Rightarrow> real" where
  "ulp x = pow2 (max (log2_floor \<bar>x\<bar>) (-1022) - 52)"

definition round_float64 :: "real \<Rightarrow> real" where
  "round_float64 x =
     (if x = 0 then 0 else of_int (round_half_even (x / ulp x)) * ulp x)"

definition float_add :: "real \<Rightarrow> real \<Rightarrow> real" where
  "float_add a b = round_float64 (a + b)"

definition float_div :: "real \<Rightarrow> real \<Rightarrow> real" where
  "float_div a b = round_float64 (a / b)"

text \<open>
  \<^verbatim>\<open>Series.mean\<close> belongs to pandas, not to the repository, and is a parameter of
  \<^verbatim>\<open>analyze_comments\<close>. On a float64 column without missing values it adds the values up in
  double precision and divides the sum by the count. The order of the additions is the
  library's choice (numpy sums in blocks and pairs), so a float sum of a list is the result
  of any tree of rounded additions over its elements: \<open>float_sum xs t\<close>. A function is a
  float64 mean when every result is such a sum divided by the count, the quotient rounded.
\<close>

inductive float_sum :: "real list \<Rightarrow> real \<Rightarrow> bool" where
  one: "float_sum [x] (round_float64 x)"
| add: "float_sum xs a \<Longrightarrow> float_sum ys b \<Longrightarrow> zs \<in> shuffles xs ys \<Longrightarrow>
        float_sum zs (float_add a b)"

definition float64_mean :: "(real list \<Rightarrow> real) \<Rightarrow> bool" where
  "float64_mean mean =
     (\<forall>xs. xs \<noteq> [] \<longrightarrow> (\<exists>tot. float_sum xs tot \<and> mean xs = float_div tot (real (length xs))))"

text \<open>One float64 mean: the additions from left to right.\<close>

definition float_sum_left :: "real list \<Rightarrow> real" where
  "float_sum_left xs =
     (case xs of [] \<Rightarrow> 0 | x # rest \<Rightarrow> foldl float_add (round_float64 x) (map round_float64 rest))"

definition mean_left_to_right :: "real list \<Rightarrow> real" where
  "mean_left_to_right xs = float_div (float_sum_left xs) (real (length xs))"

subsection \<open>Invariant of the price series cache\<close>

text \<open>Every stored price series has as many dates as prices.\<close>

definition balanced_cache :: "state \<Rightarrow> bool" where
  "balanced_cache s =
     (\<forall>key dates prices created.
        market_cache s key = Some ((dates, prices), created) \<longrightarrow> length dates = length prices)"

section \<open>Properties\<close>

lemmas string_ops = ascii_lower_def lower_char_def upper_def upper_char_def ascii_uppercase_def
  ascii_lowercase_def

subsection \<open>Advisory mapper\<close>



subsection \<open>Price alert\<close>

text \<open>
  Claim C5. With the latest price 100 and the target 100 the check emits the "reached"
  signal; with the latest price 90 and the target 100 it emits the "dropped below" signal;
  with the target 0 it emits nothing, whatever the prices. At equality of latest price and
  target the "reached" branch is the one taken, for every positive target.
\<close>

theorem price_alert_cases:
  "price_alert_check coin_symbol (earlier @ [100]) 100 s =
     emit (StSuccess (reached_message coin_symbol 100)) s
 \<and> price_alert_check coin_symbol (earlier @ [90]) 100 s =
     emit (StWarning (dropped_message coin_symbol 100)) s
 \<and> price_alert_check coin_symbol prices 0 s = s
 \<and> price_alert_check coin_symbol (earlier @ [target]) target s =
     (if target > 0 then emit (StSuccess (reached_message coin_symbol target)) s else s)"
  by (simp add: price_alert_check_def)

subsection \<open>Double precision arithmetic\<close>

lemma round_half_even_cases:
  "round_half_even y = \<lfloor>y\<rfloor> \<or> (round_half_even y = \<lfloor>y\<rfloor> + 1 \<and> 1/2 \<le> y - of_int \<lfloor>y\<rfloor>)"
  unfolding round_half_even_def Let_def by (simp add: not_less)

lemma round_half_even_le:
  assumes "y \<le> of_int m"
  shows "round_half_even y \<le> m"
proof -
  have f: "\<lfloor>y\<rfloor> \<le> m" using assms by (simp add: floor_le_iff)
  consider "round_half_even y = \<lfloor>y\<rfloor>"
    | "round_half_even y = \<lfloor>y\<rfloor> + 1" "1/2 \<le> y - of_int \<lfloor>y\<rfloor>"
    using round_half_even_cases by blast
  then show ?thesis
  proof cases
    case 1
    then show ?thesis using f by simp
  next
    case 2
    then have "of_int \<lfloor>y\<rfloor> < y" by linarith
    then have "of_int \<lfloor>y\<rfloor> < (of_int m :: real)" using assms by linarith
    then have "\<lfloor>y\<rfloor> < m" by simp
    then show ?thesis using 2(1) by simp
  qed
qed

lemma round_half_even_ge:
  assumes "of_int m \<le> y"
  shows "m \<le> round_half_even y"
proof -
  have "m \<le> \<lfloor>y\<rfloor>" using assms by (simp add: le_floor_iff)
  then show ?thesis using round_half_even_cases [of y] by linarith
qed


lemma log2_floor_small:
  assumes "1 / 2 ^ Suc k \<le> x" and "x < 1 / 2 ^ k"
  shows "log2_floor x = - int (Suc k)"
proof -
  have "(0::real) < 1 / 2 ^ Suc k" by simp
  then have pos: "0 < x" using assms(1) by linarith
  have "(1::real) / 2 ^ k \<le> 1" by (simp add: field_simps)
  then have small: "x < 1" using assms(2) by linarith
  have "1 \<le> x * 2 ^ Suc k" using assms(1) by (simp add: field_simps)
  then have up: "1 / x \<le> 2 ^ Suc k" using pos by (simp add: field_simps)
  have "x * 2 ^ k < 1" using assms(2) by (simp add: field_simps)
  then have lo: "2 ^ k < 1 / x" using pos by (simp add: field_simps)
  have c_up: "\<lceil>1 / x\<rceil> \<le> 2 ^ Suc k"
    using up by (simp add: ceiling_le_iff)
  have c_lo: "2 ^ k < \<lceil>1 / x\<rceil>"
    using lo by (simp add: less_ceiling_iff)
  define m where "m = nat (\<lceil>1 / x\<rceil> - 1)"
  have "(1::int) \<le> 2 ^ k" by simp
  then have "0 \<le> \<lceil>1 / x\<rceil> - 1" using c_lo by linarith
  then have im: "int m = \<lceil>1 / x\<rceil> - 1" unfolding m_def by (rule nat_0_le)
  have "int (2 ^ k) \<le> int m" using c_lo im by simp
  then have m1: "2 ^ k \<le> m" by (simp only: of_nat_le_iff)
  have "int m < int (2 ^ Suc k)" using c_up im by simp
  then have m2: "m < 2 ^ Suc k" by (simp only: of_nat_less_iff)
  have "floorlog 2 m \<le> Suc k" using m2 by (intro floorlog_leI) simp_all
  moreover have "Suc k \<le> floorlog 2 m"
    using m1 by (intro floorlog_ge_SucI) simp_all
  ultimately have "floorlog 2 m = Suc k" by simp
  then show ?thesis using small unfolding log2_floor_def m_def by simp
qed

lemma log2_floor_le:
  assumes "0 < x" and "x \<le> 2 ^ n"
  shows "log2_floor x \<le> int n"
proof (cases "1 \<le> x")
  case True
  have fl: "\<lfloor>x\<rfloor> \<le> 2 ^ n"
  proof -
    have "x < of_int (2 ^ n) + 1" using assms(2) by simp
    then show ?thesis by (simp only: floor_le_iff)
  qed
  have "0 \<le> \<lfloor>x\<rfloor>" using True by simp
  then have "int (nat \<lfloor>x\<rfloor>) = \<lfloor>x\<rfloor>" by (rule nat_0_le)
  moreover have "(0::int) < 2 ^ n" by simp
  ultimately have "int (nat \<lfloor>x\<rfloor>) < 2 * 2 ^ n" using fl by linarith
  then have "int (nat \<lfloor>x\<rfloor>) < int (2 ^ Suc n)" by simp
  then have "nat \<lfloor>x\<rfloor> < 2 ^ Suc n" by (simp only: of_nat_less_iff)
  then have "floorlog 2 (nat \<lfloor>x\<rfloor>) \<le> Suc n" by (intro floorlog_leI) simp_all
  then show ?thesis using True unfolding log2_floor_def by simp
next
  case False
  then show ?thesis unfolding log2_floor_def by simp
qed


lemma pow2_nonpos: "e \<le> 0 \<Longrightarrow> pow2 e = 1 / 2 ^ nat (- e)"
  by (cases "e = 0") (simp_all add: pow2_def)

lemma pow2_pos: "0 < pow2 e"
  by (simp add: pow2_def)

text \<open>Evaluation of the rounding on a number of the binade of \<open>1 / 2 ^ Suc k\<close>.\<close>

lemma round_float64_small:
  assumes "1 / 2 ^ Suc k \<le> \<bar>x\<bar>" and "\<bar>x\<bar> < 1 / 2 ^ k" and "Suc k \<le> 1022"
  shows "round_float64 x = of_int (round_half_even (x * 2 ^ (k + 53))) / 2 ^ (k + 53)"
proof -
  have "(0::real) < 1 / 2 ^ Suc k" by simp
  then have "0 < \<bar>x\<bar>" using assms(1) by linarith
  then have nz: "x \<noteq> 0" by simp
  have e: "log2_floor \<bar>x\<bar> = - int (Suc k)"
    using assms(1,2) by (rule log2_floor_small)
  have "max (log2_floor \<bar>x\<bar>) (-1022) - 52 = - int (k + 53)"
    using e assms(3) by simp
  then have u: "ulp x = 1 / 2 ^ (k + 53)"
    unfolding ulp_def by (simp add: pow2_nonpos)
  show ?thesis using nz unfolding round_float64_def u by simp
qed

text \<open>Rounding does not cross a natural number of at most 53 bits.\<close>

lemma ulp_divides:
  assumes "x \<noteq> 0" and "\<bar>x\<bar> \<le> 2 ^ 52"
  shows "\<exists>N::nat. 0 < N \<and> ulp x = 1 / real N"
proof -
  have "log2_floor \<bar>x\<bar> \<le> int 52"
    using assms by (intro log2_floor_le) simp_all
  then have "max (log2_floor \<bar>x\<bar>) (-1022) - 52 \<le> 0" by simp
  then have "ulp x = 1 / 2 ^ nat (- (max (log2_floor \<bar>x\<bar>) (-1022) - 52))"
    unfolding ulp_def by (rule pow2_nonpos)
  then have "ulp x = 1 / real (2 ^ nat (- (max (log2_floor \<bar>x\<bar>) (-1022) - 52)))" by simp
  moreover have "(0::nat) < 2 ^ nat (- (max (log2_floor \<bar>x\<bar>) (-1022) - 52))" by simp
  ultimately show ?thesis by blast
qed

lemma round_float64_le:
  assumes "x \<le> real k" and "k \<le> 2 ^ 52"
  shows "round_float64 x \<le> real k"
proof (cases "x \<le> 0")
  case True
  show ?thesis
  proof (cases "x = 0")
    case True
    then show ?thesis by (simp add: round_float64_def)
  next
    case False
    have up: "0 < ulp x" unfolding ulp_def by (rule pow2_pos)
    then have "x / ulp x \<le> of_int 0" using True by (simp add: divide_le_0_iff)
    then have "round_half_even (x / ulp x) \<le> 0" by (rule round_half_even_le)
    then have "of_int (round_half_even (x / ulp x)) * ulp x \<le> 0"
      using up by (simp add: mult_le_0_iff)
    then show ?thesis using False unfolding round_float64_def by simp
  qed
next
  case False
  then have pos: "0 < x" by simp
  have "real k \<le> 2 ^ 52" using assms(2) by (metis of_nat_le_iff of_nat_numeral of_nat_power)
  then have "\<bar>x\<bar> \<le> 2 ^ 52" using assms(1) pos by simp
  then obtain N :: nat where N: "0 < N" "ulp x = 1 / real N"
    using ulp_divides pos by (metis less_numeral_extra(3))
  have "x * real N \<le> real k * real N" using assms(1) N(1) by simp
  then have "x / ulp x \<le> of_int (int (k * N))" unfolding N(2) by simp
  then have "round_half_even (x / ulp x) \<le> int (k * N)" by (rule round_half_even_le)
  then have "(of_int (round_half_even (x / ulp x)) :: real) \<le> real (k * N)"
    by (metis of_int_le_iff of_int_of_nat_eq)
  then have "of_int (round_half_even (x / ulp x)) / real N \<le> real k"
    using N(1) by (simp add: field_simps)
  then show ?thesis using pos unfolding round_float64_def N(2) by simp
qed


lemma round_half_even_minus: "round_half_even (- y) = - round_half_even y"
proof (cases "y = of_int \<lfloor>y\<rfloor>")
  case True
  then obtain z :: int where "y = of_int z" by metis
  then show ?thesis by (simp add: round_half_even_def)
next
  case False
  then have c: "\<lceil>y\<rceil> = \<lfloor>y\<rfloor> + 1" by (simp add: ceiling_altdef)
  have f: "\<lfloor>- y\<rfloor> = - \<lfloor>y\<rfloor> - 1" using c by (simp add: ceiling_def)
  have fr: "0 < y - of_int \<lfloor>y\<rfloor>" "y - of_int \<lfloor>y\<rfloor> < 1"
    using False by linarith+
  show ?thesis
    unfolding round_half_even_def Let_def f using fr by (auto simp: algebra_simps)
qed

lemma ulp_minus: "ulp (- x) = ulp x"
  by (simp add: ulp_def)

lemma round_float64_minus: "round_float64 (- x) = - round_float64 x"
  by (simp add: round_float64_def ulp_minus round_half_even_minus)

lemma round_float64_ge:
  assumes "- real k \<le> x" and "k \<le> 2 ^ 52"
  shows "- real k \<le> round_float64 x"
proof -
  have "- x \<le> real k" using assms(1) by simp
  then have "round_float64 (- x) \<le> real k" using assms(2) by (rule round_float64_le)
  then show ?thesis by (simp add: round_float64_minus)
qed

lemma round_float64_unit:
  assumes "- 1 \<le> x" and "x \<le> 1"
  shows "- 1 \<le> round_float64 x \<and> round_float64 x \<le> 1"
  using round_float64_le [of x 1] round_float64_ge [of 1 x] assms by simp

lemma float_sum_nonempty: "float_sum xs tot \<Longrightarrow> xs \<noteq> []"
  by (induction rule: float_sum.induct) auto

lemma float_sum_bounded:
  assumes "float_sum xs tot" and "\<forall>x\<in>set xs. - 1 \<le> x \<and> x \<le> 1" and "length xs \<le> 2 ^ 52"
  shows "- real (length xs) \<le> tot \<and> tot \<le> real (length xs)"
  using assms
proof (induction rule: float_sum.induct)
  case (one x)
  have "- 1 \<le> x" "x \<le> 1" using one by simp_all
  then show ?case using round_float64_unit by simp
next
  case (add xs a ys b zs)
  have len: "length zs = length xs + length ys" using add.hyps(3) by (rule length_shuffles)
  have set: "set zs = set xs \<union> set ys" using add.hyps(3) by (rule set_shuffles)
  have "- real (length xs) \<le> a \<and> a \<le> real (length xs)"
    using add.prems len set by (intro add.IH) auto
  moreover have "- real (length ys) \<le> b \<and> b \<le> real (length ys)"
    using add.prems len set by (intro add.IH) auto
  ultimately have "a + b \<le> real (length zs)" "- real (length zs) \<le> a + b"
    using len by simp_all
  then show ?case
    unfolding float_add_def using add.prems(2)
    by (simp add: round_float64_le round_float64_ge)
qed

theorem float64_mean_in_unit_interval:
  assumes "float64_mean mean" and "xs \<noteq> []" and "length xs \<le> 2 ^ 52"
    and "\<forall>x\<in>set xs. - 1 \<le> x \<and> x \<le> 1"
  shows "- 1 \<le> mean xs \<and> mean xs \<le> 1"
proof -
  obtain tot where t: "float_sum xs tot" and m: "mean xs = float_div tot (real (length xs))"
    using assms(1,2) unfolding float64_mean_def by blast
  have b: "- real (length xs) \<le> tot \<and> tot \<le> real (length xs)"
    using t assms(4,3) by (rule float_sum_bounded)
  have n: "0 < real (length xs)" using assms(2) by simp
  have "- 1 \<le> tot / real (length xs)" "tot / real (length xs) \<le> 1"
    using b n by (simp_all add: field_simps)
  then show ?thesis unfolding m float_div_def by (rule round_float64_unit)
qed

lemma float_sum_foldl:
  "float_sum ys acc \<Longrightarrow>
     float_sum (ys @ rest) (foldl float_add acc (map round_float64 rest))"
proof (induction rest arbitrary: ys acc)
  case Nil
  then show ?case by simp
next
  case (Cons r rest)
  have "ys @ [r] \<in> shuffles ys [r]"
    by (induction ys) (auto simp: Cons_in_shuffles_iff)
  then have "float_sum (ys @ [r]) (float_add acc (round_float64 r))"
    using Cons.prems float_sum.one by (rule_tac float_sum.add) auto
  from Cons.IH [OF this] show ?case by simp
qed

lemma float_sum_left_is_float_sum: "xs \<noteq> [] \<Longrightarrow> float_sum xs (float_sum_left xs)"
proof (cases xs)
  case Nil
  assume "xs \<noteq> []" then show ?thesis using Nil by simp
next
  case (Cons x rest)
  have "float_sum [x] (round_float64 x)" by (rule float_sum.one)
  from float_sum_foldl [OF this, of rest] show ?thesis
    unfolding Cons float_sum_left_def by simp
qed

lemma mean_left_to_right_float64: "float64_mean mean_left_to_right"
  unfolding float64_mean_def mean_left_to_right_def
  using float_sum_left_is_float_sum by blast


lemma round_tenth: "round_float64 (3602879701896397 / 2 ^ 55) = 3602879701896397 / 2 ^ 55"
  using round_float64_small [of 3 "3602879701896397 / 2 ^ 55"]
  by (simp add: round_half_even_def)

lemma add_tenths:
  "float_add (3602879701896397 / 2 ^ 55) (3602879701896397 / 2 ^ 55) = 3602879701896397 / 2 ^ 54"
  using round_float64_small [of 2 "3602879701896397 / 2 ^ 54"]
  by (simp add: round_half_even_def float_add_def)

lemma add_third_tenth:
  "float_add (3602879701896397 / 2 ^ 54) (3602879701896397 / 2 ^ 55) = 5404319552844596 / 2 ^ 54"
  using round_float64_small [of 1 "10808639105689191 / 2 ^ 55"]
  by (simp add: round_half_even_def float_add_def)

lemma divide_by_three:
  "float_div (5404319552844596 / 2 ^ 54) 3 = 7205759403792795 / 2 ^ 56"
  using round_float64_small [of 3 "5404319552844596 / (3 * 2 ^ 54)"]
  by (simp add: round_half_even_def float_div_def)

lemma mean_of_three:
  "mean_left_to_right [a, b, c] =
     float_div (float_add (float_add (round_float64 a) (round_float64 b)) (round_float64 c)) 3"
  by (simp add: mean_left_to_right_def float_sum_left_def)

lemma mean_of_three_tenths:
  "mean_left_to_right [3602879701896397 / 2 ^ 55, 3602879701896397 / 2 ^ 55,
      3602879701896397 / 2 ^ 55] = 7205759403792795 / 2 ^ 56"
  by (simp only: mean_of_three round_tenth add_tenths add_third_tenth divide_by_three)

lemma above_the_tenth: "(3602879701896397::real) / 2 ^ 55 < 7205759403792795 / 2 ^ 56"
  by simp


lemma all_equal_list:
  assumes "set xs \<subseteq> {x}"
  shows "xs = replicate (length xs) x"
  using assms by (induction xs) auto

lemma float_add_commute: "float_add a b = float_add b a"
  by (simp add: float_add_def add.commute)

lemma float_sum_single:
  assumes "float_sum [x] s"
  shows "s = round_float64 x"
  using assms
proof (cases rule: float_sum.cases)
  case one
  then show ?thesis by simp
next
  case (add xs a ys b)
  have "xs \<noteq> []" "ys \<noteq> []" using add by (auto dest: float_sum_nonempty)
  then have "0 < length xs" "0 < length ys" by simp_all
  then have "2 \<le> length xs + length ys" by arith
  moreover have "length [x] = length xs + length ys" using add(4) by (rule length_shuffles)
  ultimately show ?thesis by simp
qed

lemma float_sum_pair:
  assumes "float_sum [x, x] s"
  shows "s = float_add (round_float64 x) (round_float64 x)"
  using assms
proof (cases rule: float_sum.cases)
  case (add xs a ys b)
  have ne: "xs \<noteq> []" "ys \<noteq> []" using add by (auto dest: float_sum_nonempty)
  have len: "length [x, x] = length xs + length ys" using add(4) by (rule length_shuffles)
  have set: "set [x, x] = set xs \<union> set ys" using add(4) by (rule set_shuffles)
  have "0 < length xs" "0 < length ys" using ne by simp_all
  moreover have "length xs + length ys = 2" using len by simp
  ultimately have lx: "length xs = 1" and ly: "length ys = 1"
    by arith+
  have "xs = replicate (length xs) x" "ys = replicate (length ys) x"
    using set by (auto intro!: all_equal_list)
  then have "xs = [x]" "ys = [x]" using lx ly by simp_all
  then have "a = round_float64 x" "b = round_float64 x"
    using add(2,3) by (auto dest: float_sum_single)
  then show ?thesis using add(1) by simp
qed

lemma float_sum_triple:
  assumes "float_sum [x, x, x] s"
  shows "s = float_add (float_add (round_float64 x) (round_float64 x)) (round_float64 x)"
  using assms
proof (cases rule: float_sum.cases)
  case (add xs a ys b)
  have ne: "xs \<noteq> []" "ys \<noteq> []" using add by (auto dest: float_sum_nonempty)
  have len: "length [x, x, x] = length xs + length ys" using add(4) by (rule length_shuffles)
  have set: "set [x, x, x] = set xs \<union> set ys" using add(4) by (rule set_shuffles)
  have rx: "xs = replicate (length xs) x" and ry: "ys = replicate (length ys) x"
    using set by (auto intro!: all_equal_list)
  have "0 < length xs" "0 < length ys" using ne by simp_all
  moreover have "length xs + length ys = 3" using len by simp
  ultimately have "length xs = 1 \<and> length ys = 2 \<or> length xs = 2 \<and> length ys = 1"
    by arith
  then show ?thesis
  proof
    assume l: "length xs = 1 \<and> length ys = 2"
    then have "xs = [x]" "ys = [x, x]"
      using rx ry by (simp_all add: numeral_2_eq_2)
    then have "a = round_float64 x" "b = float_add (round_float64 x) (round_float64 x)"
      using add(2,3) by (auto dest: float_sum_single float_sum_pair)
    then show ?thesis using add(1) by (simp add: float_add_commute)
  next
    assume l: "length xs = 2 \<and> length ys = 1"
    then have "xs = [x, x]" "ys = [x]"
      using rx ry by (simp_all add: numeral_2_eq_2)
    then have "a = float_add (round_float64 x) (round_float64 x)" "b = round_float64 x"
      using add(2,3) by (auto dest: float_sum_single float_sum_pair)
    then show ?thesis using add(1) by simp
  qed
qed

lemma every_mean_of_three_tenths:
  assumes "float64_mean mean"
  shows "mean [3602879701896397 / 2 ^ 55, 3602879701896397 / 2 ^ 55, 3602879701896397 / 2 ^ 55] =
           7205759403792795 / 2 ^ 56"
proof -
  let ?d = "3602879701896397 / 2 ^ 55 :: real"
  obtain tot where t: "float_sum [?d, ?d, ?d] tot"
    and m: "mean [?d, ?d, ?d] = float_div tot (real (length [?d, ?d, ?d]))"
    using assms unfolding float64_mean_def by blast
  have "tot = float_add (float_add (round_float64 ?d) (round_float64 ?d)) (round_float64 ?d)"
    using t by (rule float_sum_triple)
  then have "tot = 5404319552844596 / 2 ^ 54"
    by (simp only: round_tenth add_tenths add_third_tenth)
  moreover have "real (length [?d, ?d, ?d]) = 3" by simp
  ultimately show ?thesis unfolding m by (simp only: divide_by_three)
qed

subsection \<open>Sentiment aggregator\<close>

lemma analyze_comments_score:
  "comments \<noteq> [] \<Longrightarrow>
     fst (analyze_comments polarity mean comments s) = mean (map polarity comments)"
  by (simp add: analyze_comments_def Let_def)

lemma round_half: "round_float64 (1 / 2) = 1 / 2"
  using round_float64_small [of 0 "1 / 2"] by (simp add: round_half_even_def)

lemma round_minus_quarter: "round_float64 (- (1 / 4)) = - (1 / 4)"
  using round_float64_small [of 1 "- (1 / 4)"] by (simp add: round_half_even_def)

lemma round_zero: "round_float64 0 = 0"
  by (simp add: round_float64_def)

lemma add_half_minus_quarter: "float_add (1 / 2) (- (1 / 4)) = 1 / 4"
  using round_float64_small [of 1 "1 / 4"] by (simp add: round_half_even_def float_add_def)

lemma add_quarter_zero: "float_add (1 / 4) 0 = 1 / 4"
  using round_float64_small [of 1 "1 / 4"] by (simp add: round_half_even_def float_add_def)

lemma divide_quarter_by_three: "float_div (1 / 4) 3 = 6004799503160661 / 2 ^ 56"
  using round_float64_small [of 3 "1 / 12"] by (simp add: round_half_even_def float_div_def)

lemma divide_quarter_by_two: "round_float64 (1 / 4 / 2) = 1 / 8"
  using round_float64_small [of 2 "1 / 8"] by (simp add: round_half_even_def)

text \<open>
  Claim C6, as stated, fails: the score is the float64 mean, which need not be the
  arithmetic mean. For three comments of polarity 0.1 (the binary64 number
  \<open>3602879701896397 / 2^55\<close>) the arithmetic mean is that number, and every float64 mean
  returns the next binary64 number above it, 0.10000000000000002.
\<close>

theorem float_mean_is_not_the_mean_counterexample:
  "\<not> (\<exists>mean. float64_mean mean
        \<and> fst (analyze_comments (\<lambda>c. 3602879701896397 / 2 ^ 55) mean [''a'', ''b'', ''c'']
                 (fresh 0 [])) =
            (\<Sum>c\<leftarrow>[''a'', ''b'', ''c'']. 3602879701896397 / 2 ^ 55)
              / real (length [''a'', ''b'', ''c'']))
 \<and> fst (analyze_comments (\<lambda>c. 3602879701896397 / 2 ^ 55) mean_left_to_right
          [''a'', ''b'', ''c''] (fresh 0 [])) = 7205759403792795 / 2 ^ 56
 \<and> (\<Sum>c\<leftarrow>[''a'', ''b'', ''c'']. 3602879701896397 / 2 ^ 55) / real (length [''a'', ''b'', ''c''])
     = (7205759403792794 / 2 ^ 56 :: real)"
proof (intro conjI notI)
  assume "\<exists>mean. float64_mean mean
        \<and> fst (analyze_comments (\<lambda>c. 3602879701896397 / 2 ^ 55) mean [''a'', ''b'', ''c'']
                 (fresh 0 [])) =
            (\<Sum>c\<leftarrow>[''a'', ''b'', ''c'']. 3602879701896397 / 2 ^ 55)
              / real (length [''a'', ''b'', ''c''])"
  then obtain mean where m: "float64_mean mean"
    and eq: "fst (analyze_comments (\<lambda>c. 3602879701896397 / 2 ^ 55) mean [''a'', ''b'', ''c'']
                 (fresh 0 [])) =
            (\<Sum>c\<leftarrow>[''a'', ''b'', ''c'']. 3602879701896397 / 2 ^ 55)
              / real (length [''a'', ''b'', ''c''])"
    by blast
  have "fst (analyze_comments (\<lambda>c. 3602879701896397 / 2 ^ 55) mean [''a'', ''b'', ''c'']
               (fresh 0 [])) =
        mean [3602879701896397 / 2 ^ 55, 3602879701896397 / 2 ^ 55, 3602879701896397 / 2 ^ 55]"
    by (simp add: analyze_comments_def Let_def)
  also have "\<dots> = 7205759403792795 / 2 ^ 56"
    using m by (rule every_mean_of_three_tenths)
  finally show False using eq by simp
next
  have "fst (analyze_comments (\<lambda>c. 3602879701896397 / 2 ^ 55) mean_left_to_right
          [''a'', ''b'', ''c''] (fresh 0 [])) =
        mean_left_to_right
          [3602879701896397 / 2 ^ 55, 3602879701896397 / 2 ^ 55, 3602879701896397 / 2 ^ 55]"
    by (simp add: analyze_comments_def Let_def)
  then show "fst (analyze_comments (\<lambda>c. 3602879701896397 / 2 ^ 55) mean_left_to_right
          [''a'', ''b'', ''c''] (fresh 0 [])) = 7205759403792795 / 2 ^ 56"
    by (simp only: mean_of_three_tenths)
next
  show "(\<Sum>c\<leftarrow>[''a'', ''b'', ''c'']. 3602879701896397 / 2 ^ 55) / real (length [''a'', ''b'', ''c''])
     = (7205759403792794 / 2 ^ 56 :: real)"
    by simp
qed

text \<open>
  Claim C6, amended. For every non-empty sequence of comments the aggregator returns the
  float64 mean of the polarities of the comments, that is a sum of the polarities
  accumulated in double precision, divided by their count and rounded; it is the arithmetic
  mean up to the rounding of these operations. The table it shows has one row per comment,
  in order, with the comment, its polarity and the label: Positive for a polarity above 0,
  Negative for one below 0, Neutral for 0.
\<close>

theorem aggregator_float_mean_and_labels:
  assumes "comments \<noteq> []" and "float64_mean mean"
  shows "(\<exists>tot. float_sum (map polarity comments) tot
            \<and> fst (analyze_comments polarity mean comments s) =
                round_float64 (tot / real (length comments)))
       \<and> screen (snd (analyze_comments polarity mean comments s)) =
           screen s @
           [StDataframe
              \<lparr>Comment = comments,
               Polarity = map polarity comments,
               Sentiment =
                 map (\<lambda>c. if polarity c > 0 then ''Positive''
                          else if polarity c < 0 then ''Negative'' else ''Neutral'') comments\<rparr>]"
proof
  have ne: "map polarity comments \<noteq> []" using assms(1) by simp
  obtain tot where "float_sum (map polarity comments) tot"
    and "mean (map polarity comments) = float_div tot (real (length (map polarity comments)))"
    using assms(2) ne unfolding float64_mean_def by blast
  then show "\<exists>tot. float_sum (map polarity comments) tot
            \<and> fst (analyze_comments polarity mean comments s) =
                round_float64 (tot / real (length comments))"
    using assms(1) by (auto simp: analyze_comments_score float_div_def)
next
  show "screen (snd (analyze_comments polarity mean comments s)) =
           screen s @
           [StDataframe
              \<lparr>Comment = comments,
               Polarity = map polarity comments,
               Sentiment =
                 map (\<lambda>c. if polarity c > 0 then ''Positive''
                          else if polarity c < 0 then ''Negative'' else ''Neutral'') comments\<rparr>]"
    using assms(1)
    by (simp add: analyze_comments_def Let_def emit_def sentiment_label_def comp_def)
qed

theorem aggregator_float_mean_and_labels_witness:
  "fst (analyze_comments (\<lambda>c. if c = ''moon'' then 1 / 2 else if c = ''rekt'' then - (1 / 4) else 0)
          mean_left_to_right [''moon'', ''rekt'', ''hm''] (fresh 0 [])) =
     6004799503160661 / 2 ^ 56
 \<and> screen (snd (analyze_comments
          (\<lambda>c. if c = ''moon'' then 1 / 2 else if c = ''rekt'' then - (1 / 4) else 0)
          mean_left_to_right [''moon'', ''rekt'', ''hm''] (fresh 0 []))) =
     [StDataframe \<lparr>Comment = [''moon'', ''rekt'', ''hm''], Polarity = [1 / 2, - (1 / 4), 0],
        Sentiment = [''Positive'', ''Negative'', ''Neutral'']\<rparr>]"
proof -
  have ne: "[''moon'', ''rekt'', ''hm''] \<noteq> []" by simp
  note labels =
    aggregator_float_mean_and_labels
      [OF ne mean_left_to_right_float64,
       where polarity = "\<lambda>c. if c = ''moon'' then 1 / 2 else if c = ''rekt'' then - (1 / 4) else 0"
         and s = "fresh 0 []"]
  have "mean_left_to_right [1 / 2, - (1 / 4), 0] = 6004799503160661 / 2 ^ 56"
    by (simp only: mean_of_three round_half round_minus_quarter round_zero
          add_half_minus_quarter add_quarter_zero divide_quarter_by_three)
  then have score: "fst (analyze_comments
          (\<lambda>c. if c = ''moon'' then 1 / 2 else if c = ''rekt'' then - (1 / 4) else 0)
          mean_left_to_right [''moon'', ''rekt'', ''hm''] (fresh 0 [])) =
     6004799503160661 / 2 ^ 56"
    by (simp add: analyze_comments_def Let_def)
  show ?thesis using labels score by (simp add: fresh_def)
qed

text \<open>
  Claim C10, as stated, fails in its first half: for three comments of polarity 0.1 every
  float64 mean returns 0.10000000000000002, which is above the greatest polarity.
\<close>

theorem mean_above_the_maximum_counterexample:
  "\<not> (\<exists>mean. float64_mean mean
        \<and> fst (analyze_comments (\<lambda>c. 3602879701896397 / 2 ^ 55) mean [''a'', ''b'', ''c'']
                 (fresh 0 [])) \<le>
            Max (set (map (\<lambda>c. 3602879701896397 / 2 ^ 55) [''a'', ''b'', ''c''])))
 \<and> Max (set (map (\<lambda>c. 3602879701896397 / 2 ^ 55) [''a'', ''b'', ''c''])) =
     (7205759403792794 / 2 ^ 56 :: real)"
proof (intro conjI notI)
  assume "\<exists>mean. float64_mean mean
        \<and> fst (analyze_comments (\<lambda>c. 3602879701896397 / 2 ^ 55) mean [''a'', ''b'', ''c'']
                 (fresh 0 [])) \<le>
            Max (set (map (\<lambda>c. 3602879701896397 / 2 ^ 55) [''a'', ''b'', ''c'']))"
  then obtain mean where m: "float64_mean mean"
    and le: "fst (analyze_comments (\<lambda>c. 3602879701896397 / 2 ^ 55) mean [''a'', ''b'', ''c'']
                 (fresh 0 [])) \<le>
            Max (set (map (\<lambda>c. 3602879701896397 / 2 ^ 55) [''a'', ''b'', ''c'']))"
    by blast
  have "fst (analyze_comments (\<lambda>c. 3602879701896397 / 2 ^ 55) mean [''a'', ''b'', ''c'']
               (fresh 0 [])) =
        mean [3602879701896397 / 2 ^ 55, 3602879701896397 / 2 ^ 55, 3602879701896397 / 2 ^ 55]"
    by (simp add: analyze_comments_def Let_def)
  also have "\<dots> = 7205759403792795 / 2 ^ 56"
    using m by (rule every_mean_of_three_tenths)
  finally show False using le by simp
next
  show "Max (set (map (\<lambda>c. 3602879701896397 / 2 ^ 55) [''a'', ''b'', ''c''])) =
     (7205759403792794 / 2 ^ 56 :: real)"
    by simp
qed

text \<open>
  Claim C10, amended. For every non-empty sequence of at most \<open>2^52\<close> comments, if every
  polarity lies in \<open>[-1, 1]\<close> then the aggregate score lies in \<open>[-1, 1]\<close>, whatever the order in
  which the float64 mean adds the polarities up. (The bound by the least and the greatest
  polarity is not part of the amended claim.)
\<close>

theorem aggregate_in_unit_interval:
  assumes "comments \<noteq> []" and "length comments \<le> 2 ^ 52" and "float64_mean mean"
    and "\<forall>c \<in> set comments. - 1 \<le> polarity c \<and> polarity c \<le> 1"
  shows "- 1 \<le> fst (analyze_comments polarity mean comments s)
       \<and> fst (analyze_comments polarity mean comments s) \<le> 1"
proof -
  have "- 1 \<le> mean (map polarity comments) \<and> mean (map polarity comments) \<le> 1"
    using assms by (intro float64_mean_in_unit_interval) simp_all
  then show ?thesis using assms(1) by (simp add: analyze_comments_score)
qed

theorem aggregate_in_unit_interval_witness:
  "fst (analyze_comments (\<lambda>c. if c = ''moon'' then 1 / 2 else - (1 / 4)) mean_left_to_right
          [''moon'', ''rekt''] (fresh 0 [])) = 1 / 8
 \<and> - 1 \<le> fst (analyze_comments (\<lambda>c. if c = ''moon'' then 1 / 2 else - (1 / 4))
                  mean_left_to_right [''moon'', ''rekt''] (fresh 0 []))
 \<and> fst (analyze_comments (\<lambda>c. if c = ''moon'' then 1 / 2 else - (1 / 4)) mean_left_to_right
          [''moon'', ''rekt''] (fresh 0 [])) \<le> 1"
proof -
  have ne: "[''moon'', ''rekt''] \<noteq> []" by simp
  have len: "length [''moon'', ''rekt''] \<le> 2 ^ 52" by simp
  have unit: "\<forall>c \<in> set [''moon'', ''rekt''].
      - 1 \<le> (if c = ''moon'' then 1 / 2 else - (1 / 4) :: real)
      \<and> (if c = ''moon'' then 1 / 2 else - (1 / 4) :: real) \<le> 1"
    by simp
  note bounds = aggregate_in_unit_interval [OF ne len mean_left_to_right_float64 unit,
      of "fresh 0 []"]
  have "mean_left_to_right [1 / 2, - (1 / 4)] =
      round_float64 (float_add (round_float64 (1 / 2)) (round_float64 (- (1 / 4))) / 2)"
    by (simp add: mean_left_to_right_def float_sum_left_def float_div_def)
  also have "\<dots> = 1 / 8"
    by (simp only: round_half round_minus_quarter add_half_minus_quarter divide_quarter_by_two)
  finally have "fst (analyze_comments (\<lambda>c. if c = ''moon'' then 1 / 2 else - (1 / 4))
      mean_left_to_right [''moon'', ''rekt''] (fresh 0 [])) = 1 / 8"
    by (simp add: analyze_comments_def Let_def)
  then show ?thesis using bounds by simp
qed

subsection \<open>The decorators on a body that never raises\<close>

lemma retry_returns_at_once: "fst (func s) = Inr v \<Longrightarrow> retry func s = func s"
  by (cases "func s") (simp add: retry_def)

subsection \<open>Price series\<close>

lemma unzip_points_balanced:
  "unzip_points points = Inr (dates, prices) \<Longrightarrow>
     length dates = length points \<and> length prices = length points"
  by (induction points arbitrary: dates prices rule: unzip_points.induct)
     (auto split: sum.splits)

lemma unzip_points_all_points:
  "unzip_points (map (\<lambda>(d, p). Point d p) pairs) =
     Inr (map (\<lambda>(d, p). d / 1000) pairs, map snd pairs)"
  by (induction pairs) auto

lemma fetch_market_data_body_balanced:
  "\<exists>dates prices s'. fetch_market_data_body coin_id days s = (Inr (dates, prices), s')
      \<and> length dates = length prices \<and> market_cache s' = market_cache s"
  unfolding fetch_market_data_body_def request_def emit_def
  by (auto split: list.splits reply.splits option.splits sum.splits prod.splits
        dest: unzip_points_balanced simp: Let_def)

lemma retry_fetch_market_data_body:
  "retry (fetch_market_data_body coin_id days) s = fetch_market_data_body coin_id days s"
proof -
  obtain dates prices s' where "fetch_market_data_body coin_id days s = (Inr (dates, prices), s')"
    using fetch_market_data_body_balanced by blast
  then show ?thesis by (intro retry_returns_at_once [where v = "(dates, prices)"]) simp
qed

lemma fetch_market_data_step:
  assumes inv: "balanced_cache s"
  shows "\<exists>dates prices s'. fetch_market_data coin_id days s = (Inr (dates, prices), s')
          \<and> length dates = length prices \<and> balanced_cache s'"
proof -
  obtain dates prices s1 where body:
    "fetch_market_data_body coin_id days s = (Inr (dates, prices), s1)"
    and len: "length dates = length prices" and frame: "market_cache s1 = market_cache s"
    using fetch_market_data_body_balanced by blast
  let ?stored =
    "s1\<lparr>market_cache := (market_cache s)((coin_id, days) \<mapsto> ((dates, prices), clock s1))\<rparr>"
  have stored_ok: "balanced_cache ?stored"
    using inv len unfolding balanced_cache_def by (auto split: if_splits)
  show ?thesis
  proof (cases "market_cache s (coin_id, days)")
    case None
    then have "fetch_market_data coin_id days s = (Inr (dates, prices), ?stored)"
      by (simp add: fetch_market_data_def cache_data_def retry_fetch_market_data_body body)
    then show ?thesis using len stored_ok by blast
  next
    case (Some entry)
    obtain cd cp created where e: "entry = ((cd, cp), created)" by (metis prod.exhaust)
    have clen: "length cd = length cp" using inv Some e unfolding balanced_cache_def by blast
    show ?thesis
    proof (cases "clock s - created < 300")
      case True
      then have "fetch_market_data coin_id days s =
          (Inr (cd, cp), s\<lparr>market_cache := market_cache s\<rparr>)"
        using Some e by (simp add: fetch_market_data_def cache_data_def)
      moreover have "balanced_cache (s\<lparr>market_cache := market_cache s\<rparr>)"
        using inv by (simp add: balanced_cache_def)
      ultimately show ?thesis using clen by blast
    next
      case False
      then have "fetch_market_data coin_id days s = (Inr (dates, prices), ?stored)"
        using Some e
        by (simp add: fetch_market_data_def cache_data_def retry_fetch_market_data_body body)
      then show ?thesis using len stored_ok by blast
    qed
  qed
qed

text \<open>
  Claim C9. Every value returned by \<^verbatim>\<open>fetch_market_data\<close> is a pair of a date sequence and a
  price sequence of equal length. The cache of a fresh process holds only such pairs, and
  from a state whose cache holds only such pairs every call, whatever the service replies
  and whether the cache is hit or not, returns such a pair without raising and leaves such
  a cache. In particular the body returns the two converted columns for a reply with
  well-formed points, and the empty series for a reply without points and for a failed
  request.
\<close>

theorem market_data_balanced:
  "balanced_cache (fresh now replies)
 \<and> (balanced_cache s \<longrightarrow>
      (\<exists>dates prices s'. fetch_market_data coin_id days s = (Inr (dates, prices), s')
          \<and> length dates = length prices \<and> balanced_cache s'))
 \<and> (pairs \<noteq> [] \<longrightarrow>
      fst (fetch_market_data_body coin_id days
             (s\<lparr>pending := ChartJson (Some (map (\<lambda>(d, p). Point d p) pairs)) # rest\<rparr>)) =
        Inr (map (\<lambda>(d, p). d / 1000) pairs, map snd pairs))
 \<and> fst (fetch_market_data_body coin_id days (s\<lparr>pending := ChartJson (Some []) # rest\<rparr>)) =
      Inr ([], [])
 \<and> fst (fetch_market_data_body coin_id days (s\<lparr>pending := ChartJson None # rest\<rparr>)) =
      Inr ([], [])
 \<and> fst (fetch_market_data_body coin_id days (s\<lparr>pending := Failure msg # rest\<rparr>)) =
      Inr ([], [])"
proof -
  have init: "balanced_cache (fresh now replies)"
    by (simp add: balanced_cache_def fresh_def)
  have data: "fst (fetch_market_data_body coin_id days
             (s\<lparr>pending := ChartJson (Some (map (\<lambda>(d, p). Point d p) pairs)) # rest\<rparr>)) =
        Inr (map (\<lambda>(d, p). d / 1000) pairs, map snd pairs)" if "pairs \<noteq> []"
    using that
    by (simp add: fetch_market_data_body_def request_def unzip_points_all_points)
  have empty: "fst (fetch_market_data_body coin_id days
             (s\<lparr>pending := ChartJson (Some []) # rest\<rparr>)) = Inr ([], [])"
    by (simp add: fetch_market_data_body_def request_def)
  have absent: "fst (fetch_market_data_body coin_id days
             (s\<lparr>pending := ChartJson None # rest\<rparr>)) = Inr ([], [])"
    by (simp add: fetch_market_data_body_def request_def)
  have failed: "fst (fetch_market_data_body coin_id days
             (s\<lparr>pending := Failure msg # rest\<rparr>)) = Inr ([], [])"
    by (simp add: fetch_market_data_body_def request_def)
  from init data empty absent failed fetch_market_data_step [of s coin_id days]
  show ?thesis by blast
qed

theorem market_data_balanced_witness:
  "(\<exists>dates prices s'.
       fetch_market_data ''bitcoin'' 7 (fresh 0 [ChartJson (Some [Point 1000 50, Malformed])]) =
         (Inr (dates, prices), s')
       \<and> length dates = length prices \<and> balanced_cache s')
 \<and> fst (fetch_market_data_body ''bitcoin'' 7
          ((fresh 0 [])\<lparr>pending := [ChartJson (Some [Point 1000 50, Point 2000 60])]\<rparr>)) =
     Inr ([1, 2], [50, 60])"
  using market_data_balanced
          [of 0 "[ChartJson (Some [Point 1000 50, Malformed])]"
              "fresh 0 [ChartJson (Some [Point 1000 50, Malformed])]" "''bitcoin''" 7
              "[(1000, 50), (2000, 60)]" "[]"]
        market_data_balanced
          [of 0 "[]" "fresh 0 []" "''bitcoin''" 7 "[(1000, 50), (2000, 60)]" "[]"]
  by simp

subsection \<open>Discussion client\<close>

lemma starts_with_iff: "starts_with sub s \<longleftrightarrow> (\<exists>after. s = sub @ after)"
  by (induction sub s rule: starts_with.induct) auto

lemma substring_of_iff: "substring_of sub s \<longleftrightarrow> (\<exists>before after. s = before @ sub @ after)"
proof (induction s)
  case Nil
  then show ?case by auto
next
  case (Cons c s)
  show ?case
  proof
    assume "substring_of sub (c # s)"
    then consider "starts_with sub (c # s)" | "substring_of sub s" by auto
    then show "\<exists>before after. c # s = before @ sub @ after"
    proof cases
      case 1
      then obtain after where "c # s = sub @ after" using starts_with_iff by blast
      then have "c # s = [] @ sub @ after" by simp
      then show ?thesis by blast
    next
      case 2
      then obtain before after where "s = before @ sub @ after" using Cons.IH by blast
      then have "c # s = (c # before) @ sub @ after" by simp
      then show ?thesis by blast
    qed
  next
    assume "\<exists>before after. c # s = before @ sub @ after"
    then obtain before after where eq: "c # s = before @ sub @ after" by blast
    show "substring_of sub (c # s)"
    proof (cases before)
      case Nil
      then have "starts_with sub (c # s)" using eq starts_with_iff by auto
      then show ?thesis by simp
    next
      case (Cons b before')
      then have "s = before' @ sub @ after" using eq by simp
      then have "substring_of sub s" using Cons.IH by blast
      then show ?thesis by simp
    qed
  qed
qed

lemma scan_submissions_collects:
  "scan_submissions lower coin_symbol limit submissions comments s = (Inr found, s') \<Longrightarrow>
     \<exists>new. found = comments @ new \<and> (\<forall>c \<in> set new. mentions lower coin_symbol c)"
proof (induction submissions arbitrary: comments s)
  case Nil
  then show ?case by simp
next
  case (Cons submission rest)
  obtain r s1 where req: "request (RedditComments submission) s = (r, s1)"
    by (cases "request (RedditComments submission) s")
  show ?case
  proof (cases r)
    case (CommentsJson bodies)
    let ?c = "comments @ filter (mentions lower coin_symbol) bodies"
    show ?thesis
    proof (cases "int (length ?c) \<ge> limit")
      case True
      then have "found = ?c" using Cons.prems req CommentsJson by (simp add: Let_def)
      then show ?thesis by auto
    next
      case False
      then have "scan_submissions lower coin_symbol limit rest ?c s1 = (Inr found, s')"
        using Cons.prems req CommentsJson by (simp add: Let_def)
      then obtain new where "found = ?c @ new" "\<forall>c \<in> set new. mentions lower coin_symbol c"
        using Cons.IH by blast
      then have "found = comments @ (filter (mentions lower coin_symbol) bodies @ new)
          \<and> (\<forall>c \<in> set (filter (mentions lower coin_symbol) bodies @ new). mentions lower coin_symbol c)"
        by auto
      then show ?thesis by blast
    qed
  qed (use Cons.prems req in auto)
qed

lemma fetch_reddit_comments_body_returns:
  "\<exists>comments s'. fetch_reddit_comments_body lower coin_symbol limit s = (Inr comments, s')"
  unfolding fetch_reddit_comments_body_def
  by (auto split: prod.splits reply.splits sum.splits)

lemma retry_fetch_reddit_comments_body:
  "fetch_reddit_comments lower coin_symbol limit s = fetch_reddit_comments_body lower coin_symbol limit s"
proof -
  obtain comments s' where "fetch_reddit_comments_body lower coin_symbol limit s = (Inr comments, s')"
    using fetch_reddit_comments_body_returns by blast
  then show ?thesis
    unfolding fetch_reddit_comments_def
    by (intro retry_returns_at_once [where v = comments]) simp
qed

lemma in_slice_toD: "x \<in> set (slice_to xs n) \<Longrightarrow> x \<in> set xs"
  by (auto simp: slice_to_def dest: in_set_takeD split: if_splits)

lemma fetch_reddit_comments_body_sound:
  assumes "fetch_reddit_comments_body lower coin_symbol limit s = (Inr comments, s')"
  shows "\<forall>c \<in> set comments. mentions lower coin_symbol c"
  using assms unfolding fetch_reddit_comments_body_def
  by (auto split: prod.splits reply.splits sum.splits
        dest!: scan_submissions_collects in_slice_toD)

lemma fetch_reddit_comments_body_bounded:
  assumes "fetch_reddit_comments_body lower coin_symbol limit s = (Inr comments, s')" and "0 \<le> limit"
  shows "int (length comments) \<le> limit"
  using assms unfolding fetch_reddit_comments_body_def
  by (auto split: prod.splits reply.splits sum.splits simp: slice_to_def)


lemma scan_submissions_stops_early:
  assumes "pending s = map CommentsJson trees @ later"
    and "trees \<noteq> []"
    and "length trees \<le> length submissions"
    and "limit \<le> int (length (comments @ filter (mentions lower coin_symbol) (concat trees)))"
  shows "\<exists>k s'. 1 \<le> k \<and> k \<le> length trees
      \<and> scan_submissions lower coin_symbol limit submissions comments s =
          (Inr (comments @ filter (mentions lower coin_symbol) (concat (take k trees))), s')
      \<and> limit \<le> int (length (comments @ filter (mentions lower coin_symbol) (concat (take k trees))))
      \<and> (\<forall>j. 1 \<le> j \<and> j < k \<longrightarrow>
            int (length (comments @ filter (mentions lower coin_symbol) (concat (take j trees)))) < limit)
      \<and> sent s' = sent s @ map RedditComments (take k submissions)
      \<and> pending s' = map CommentsJson (drop k trees) @ later
      \<and> screen s' = screen s"
  using assms
proof (induction trees arbitrary: submissions comments s)
  case Nil
  then show ?case by simp
next
  case (Cons tree trees)
  obtain submission rest where subs: "submissions = submission # rest"
    using Cons.prems(3) by (cases submissions) auto
  let ?s1 = "s\<lparr>pending := map CommentsJson trees @ later, sent := sent s @ [RedditComments submission]\<rparr>"
  have req: "request (RedditComments submission) s = (CommentsJson tree, ?s1)"
    using Cons.prems(1) by (simp add: request_def)
  let ?c = "comments @ filter (mentions lower coin_symbol) tree"
  show ?case
  proof (cases "int (length ?c) \<ge> limit")
    case True
    then have "scan_submissions lower coin_symbol limit submissions comments s = (Inr ?c, ?s1)"
      using req subs by (simp add: Let_def)
    then show ?thesis
      using True subs by (intro exI [of _ 1] exI [of _ ?s1]) simp
  next
    case False
    then have ne: "trees \<noteq> []" using Cons.prems(4) by auto
    have step: "scan_submissions lower coin_symbol limit submissions comments s =
        scan_submissions lower coin_symbol limit rest ?c ?s1"
      using req subs False by (simp add: Let_def)
    have "\<exists>k s'. 1 \<le> k \<and> k \<le> length trees
      \<and> scan_submissions lower coin_symbol limit rest ?c ?s1 =
          (Inr (?c @ filter (mentions lower coin_symbol) (concat (take k trees))), s')
      \<and> limit \<le> int (length (?c @ filter (mentions lower coin_symbol) (concat (take k trees))))
      \<and> (\<forall>j. 1 \<le> j \<and> j < k \<longrightarrow>
            int (length (?c @ filter (mentions lower coin_symbol) (concat (take j trees)))) < limit)
      \<and> sent s' = sent ?s1 @ map RedditComments (take k rest)
      \<and> pending s' = map CommentsJson (drop k trees) @ later
      \<and> screen s' = screen ?s1"
    proof (rule Cons.IH)
      show "pending ?s1 = map CommentsJson trees @ later" by simp
      show "trees \<noteq> []" by (rule ne)
      show "length trees \<le> length rest" using Cons.prems(3) subs by simp
      show "limit \<le> int (length (?c @ filter (mentions lower coin_symbol) (concat trees)))"
        using Cons.prems(4) by simp
    qed
    then obtain k s' where k: "1 \<le> k" "k \<le> length trees"
      and res: "scan_submissions lower coin_symbol limit rest ?c ?s1 =
          (Inr (?c @ filter (mentions lower coin_symbol) (concat (take k trees))), s')"
      and reach: "limit \<le> int (length (?c @ filter (mentions lower coin_symbol) (concat (take k trees))))"
      and before: "\<forall>j. 1 \<le> j \<and> j < k \<longrightarrow>
            int (length (?c @ filter (mentions lower coin_symbol) (concat (take j trees)))) < limit"
      and sn: "sent s' = sent ?s1 @ map RedditComments (take k rest)"
      and pd: "pending s' = map CommentsJson (drop k trees) @ later"
      and sc: "screen s' = screen ?s1"
      by blast
    have before': "int (length (comments @ filter (mentions lower coin_symbol)
                     (concat (take j (tree # trees))))) < limit"
      if jk: "1 \<le> j \<and> j < Suc k" for j
    proof (cases "j = 1")
      case True
      then show ?thesis using False by simp
    next
      case False2: False
      then obtain j' where j': "j = Suc j'" "1 \<le> j'" "j' < k"
        using jk by (cases j) auto
      then show ?thesis using before by simp
    qed
    show ?thesis
      apply (rule exI [of _ "Suc k"], rule exI [of _ s'])
      using k step res reach before' sn pd sc subs by simp
  qed
qed


lemma scan_submissions_fails:
  assumes "pending s = map CommentsJson trees @ Failure msg # later"
    and "length trees < length submissions"
    and "int (length (comments @ filter (mentions lower coin_symbol) (concat trees))) < limit"
  shows "\<exists>s'. scan_submissions lower coin_symbol limit submissions comments s = (Inl (Exception msg), s')
      \<and> screen s' = screen s \<and> pending s' = later
      \<and> sent s' = sent s @ map RedditComments (take (Suc (length trees)) submissions)"
  using assms
proof (induction trees arbitrary: submissions comments s)
  case Nil
  then obtain submission rest where "submissions = submission # rest"
    by (cases submissions) auto
  then show ?case using Nil by (simp add: request_def)
next
  case (Cons tree trees)
  obtain submission rest where subs: "submissions = submission # rest"
    using Cons.prems(2) by (cases submissions) auto
  let ?s1 = "s\<lparr>pending := map CommentsJson trees @ Failure msg # later,
               sent := sent s @ [RedditComments submission]\<rparr>"
  let ?c = "comments @ filter (mentions lower coin_symbol) tree"
  have req: "request (RedditComments submission) s = (CommentsJson tree, ?s1)"
    using Cons.prems(1) by (simp add: request_def)
  have below: "\<not> limit \<le> int (length ?c)" using Cons.prems(3) by simp
  have step: "scan_submissions lower coin_symbol limit submissions comments s =
      scan_submissions lower coin_symbol limit rest ?c ?s1"
    using req subs below by (simp add: Let_def)
  have "\<exists>s'. scan_submissions lower coin_symbol limit rest ?c ?s1 = (Inl (Exception msg), s')
      \<and> screen s' = screen ?s1 \<and> pending s' = later
      \<and> sent s' = sent ?s1 @ map RedditComments (take (Suc (length trees)) rest)"
  proof (rule Cons.IH)
    show "pending ?s1 = map CommentsJson trees @ Failure msg # later" by simp
    show "length trees < length rest" using Cons.prems(2) subs by simp
    show "int (length (?c @ filter (mentions lower coin_symbol) (concat trees))) < limit"
      using Cons.prems(3) by simp
  qed
  then show ?case using step subs by auto
qed

lemma fetch_reddit_comments_general:
  assumes "0 \<le> limit"
  shows "\<exists>comments s'. fetch_reddit_comments lower coin_symbol limit s = (Inr comments, s')
      \<and> int (length comments) \<le> limit
      \<and> (\<forall>c \<in> set comments. \<exists>before after. lower c = before @ lower coin_symbol @ after)"
proof -
  obtain comments s' where r: "fetch_reddit_comments_body lower coin_symbol limit s = (Inr comments, s')"
    using fetch_reddit_comments_body_returns by blast
  have "\<forall>c \<in> set comments. mentions lower coin_symbol c"
    using r by (rule fetch_reddit_comments_body_sound)
  then have "\<forall>c \<in> set comments. \<exists>before after. lower c = before @ lower coin_symbol @ after"
    by (simp add: mentions_def substring_of_iff)
  moreover have "int (length comments) \<le> limit"
    using r assms by (rule fetch_reddit_comments_body_bounded)
  ultimately show ?thesis using r by (simp add: retry_fetch_reddit_comments_body)
qed

lemma fetch_reddit_comments_stops_early:
  assumes "0 \<le> limit"
    and "pending s = HotJson submissions # map CommentsJson trees @ later"
    and "trees \<noteq> []"
    and "length trees \<le> length (take 10 submissions)"
    and "limit \<le> int (length (filter (mentions lower coin_symbol) (concat trees)))"
  shows "\<exists>k s'. 1 \<le> k \<and> k \<le> length trees
      \<and> fetch_reddit_comments lower coin_symbol limit s =
          (Inr (take (nat limit) (filter (mentions lower coin_symbol) (concat trees))), s')
      \<and> length (take (nat limit) (filter (mentions lower coin_symbol) (concat trees))) = nat limit
      \<and> limit \<le> int (length (filter (mentions lower coin_symbol) (concat (take k trees))))
      \<and> (\<forall>j. 1 \<le> j \<and> j < k \<longrightarrow>
            int (length (filter (mentions lower coin_symbol) (concat (take j trees)))) < limit)
      \<and> sent s' = sent s @ RedditHot # map RedditComments (take k (take 10 submissions))
      \<and> pending s' = map CommentsJson (drop k trees) @ later"
proof -
  let ?s1 = "s\<lparr>pending := map CommentsJson trees @ later, sent := sent s @ [RedditHot]\<rparr>"
  have req: "request RedditHot s = (HotJson submissions, ?s1)"
    using assms(2) by (simp add: request_def)
  have "\<exists>k s'. 1 \<le> k \<and> k \<le> length trees
      \<and> scan_submissions lower coin_symbol limit (take 10 submissions) [] ?s1 =
          (Inr ([] @ filter (mentions lower coin_symbol) (concat (take k trees))), s')
      \<and> limit \<le> int (length ([] @ filter (mentions lower coin_symbol) (concat (take k trees))))
      \<and> (\<forall>j. 1 \<le> j \<and> j < k \<longrightarrow>
            int (length ([] @ filter (mentions lower coin_symbol) (concat (take j trees)))) < limit)
      \<and> sent s' = sent ?s1 @ map RedditComments (take k (take 10 submissions))
      \<and> pending s' = map CommentsJson (drop k trees) @ later
      \<and> screen s' = screen ?s1"
  proof (rule scan_submissions_stops_early)
    show "pending ?s1 = map CommentsJson trees @ later" by simp
    show "trees \<noteq> []" by (rule assms(3))
    show "length trees \<le> length (take 10 submissions)" by (rule assms(4))
    show "limit \<le> int (length ([] @ filter (mentions lower coin_symbol) (concat trees)))"
      using assms(5) by simp
  qed
  then obtain k s' where k: "1 \<le> k" "k \<le> length trees"
    and res: "scan_submissions lower coin_symbol limit (take 10 submissions) [] ?s1 =
          (Inr (filter (mentions lower coin_symbol) (concat (take k trees))), s')"
    and reach: "limit \<le> int (length (filter (mentions lower coin_symbol) (concat (take k trees))))"
    and before: "\<forall>j. 1 \<le> j \<and> j < k \<longrightarrow>
            int (length (filter (mentions lower coin_symbol) (concat (take j trees)))) < limit"
    and sn: "sent s' = sent ?s1 @ map RedditComments (take k (take 10 submissions))"
    and pd: "pending s' = map CommentsJson (drop k trees) @ later"
    by auto
  let ?found = "filter (mentions lower coin_symbol) (concat (take k trees))"
  let ?all = "filter (mentions lower coin_symbol) (concat trees)"
  have split: "?all = ?found @ filter (mentions lower coin_symbol) (concat (drop k trees))"
    by (metis append_take_drop_id concat_append filter_append)
  have enough: "nat limit \<le> length ?found" using reach by linarith
  have same: "take (nat limit) ?all = take (nat limit) ?found"
    using enough by (subst split) simp
  have len: "length (take (nat limit) ?all) = nat limit"
    using enough by (subst same) simp
  have "fetch_reddit_comments_body lower coin_symbol limit s = (Inr (take (nat limit) ?all), s')"
    using req res assms(1) same by (simp add: fetch_reddit_comments_body_def slice_to_def)
  then show ?thesis
    using k reach before sn pd len
    by (intro exI [of _ k] exI [of _ s']) (simp add: retry_fetch_reddit_comments_body)
qed

lemma fetch_reddit_comments_listing_fails:
  assumes "pending s = Failure msg # later"
  shows "\<exists>s'. fetch_reddit_comments lower coin_symbol limit s = (Inr [], s')
      \<and> screen s' = screen s @ [StError [Lit ''Reddit error: '', Lit msg]]"
  using assms
  by (simp add: retry_fetch_reddit_comments_body fetch_reddit_comments_body_def request_def
        emit_def)

lemma fetch_reddit_comments_tree_fails:
  assumes "pending s = HotJson submissions # map CommentsJson trees @ Failure msg # later"
    and "length trees < length (take 10 submissions)"
    and "int (length (filter (mentions lower coin_symbol) (concat trees))) < limit"
  shows "\<exists>s'. fetch_reddit_comments lower coin_symbol limit s = (Inr [], s')
      \<and> screen s' = screen s @ [StError [Lit ''Reddit error: '', Lit msg]]"
proof -
  let ?s1 = "s\<lparr>pending := map CommentsJson trees @ Failure msg # later,
               sent := sent s @ [RedditHot]\<rparr>"
  have req: "request RedditHot s = (HotJson submissions, ?s1)"
    using assms(1) by (simp add: request_def)
  have "\<exists>s'. scan_submissions lower coin_symbol limit (take 10 submissions) [] ?s1 =
        (Inl (Exception msg), s')
      \<and> screen s' = screen ?s1 \<and> pending s' = later
      \<and> sent s' = sent ?s1 @ map RedditComments (take (Suc (length trees)) (take 10 submissions))"
  proof (rule scan_submissions_fails)
    show "pending ?s1 = map CommentsJson trees @ Failure msg # later" by simp
    show "length trees < length (take 10 submissions)" by (rule assms(2))
    show "int (length ([] @ filter (mentions lower coin_symbol) (concat trees))) < limit"
      using assms(3) by simp
  qed
  then obtain s' where
    "scan_submissions lower coin_symbol limit (take 10 submissions) [] ?s1 = (Inl (Exception msg), s')"
    "screen s' = screen s"
    by auto
  then show ?thesis
    using req
    by (simp add: retry_fetch_reddit_comments_body fetch_reddit_comments_body_def emit_def)
qed

lemmas run_reddit = fetch_reddit_comments_def retry_def fetch_reddit_comments_body_def
  request_def emit_def fresh_def mentions_def slice_to_def string_ops Let_def

text \<open>
  Claim C7. For every symbol and every limit (a count of comments, so not negative),
  \<^verbatim>\<open>fetch_reddit_comments\<close> returns, without raising, at most \<open>limit\<close> comment bodies, each
  of which holds the lower-cased symbol as a substring of its lower-cased text, whatever
  \<^verbatim>\<open>str.lower\<close> does to a character. When the comment trees of the first submissions together
  hold at least \<open>limit\<close> matches, the result is exactly the first \<open>limit\<close> matches, and the scan
  stops at the first submission after which the matches collected reach the limit: no later
  comment tree is requested. When the hot listing fails, or a comment tree fails before the
  limit is reached, the result is the empty sequence and the error is reported on the page.
\<close>

theorem fetch_reddit_comments_contract:
  assumes "0 \<le> limit"
  shows "(\<exists>comments s'. fetch_reddit_comments lower coin_symbol limit s = (Inr comments, s')
            \<and> int (length comments) \<le> limit
            \<and> (\<forall>c \<in> set comments. \<exists>before after. lower c = before @ lower coin_symbol @ after))
       \<and> (pending s = HotJson submissions # map CommentsJson trees @ later
            \<and> trees \<noteq> [] \<and> length trees \<le> length (take 10 submissions)
            \<and> limit \<le> int (length (filter (mentions lower coin_symbol) (concat trees))) \<longrightarrow>
          (\<exists>k s'. 1 \<le> k \<and> k \<le> length trees
            \<and> fetch_reddit_comments lower coin_symbol limit s =
                (Inr (take (nat limit) (filter (mentions lower coin_symbol) (concat trees))), s')
            \<and> length (take (nat limit) (filter (mentions lower coin_symbol) (concat trees))) = nat limit
            \<and> limit \<le> int (length (filter (mentions lower coin_symbol) (concat (take k trees))))
            \<and> (\<forall>j. 1 \<le> j \<and> j < k \<longrightarrow>
                  int (length (filter (mentions lower coin_symbol) (concat (take j trees)))) < limit)
            \<and> sent s' = sent s @ RedditHot # map RedditComments (take k (take 10 submissions))
            \<and> pending s' = map CommentsJson (drop k trees) @ later))
       \<and> (pending s = Failure msg # later \<longrightarrow>
          (\<exists>s'. fetch_reddit_comments lower coin_symbol limit s = (Inr [], s')
            \<and> screen s' = screen s @ [StError [Lit ''Reddit error: '', Lit msg]]))
       \<and> (pending s = HotJson submissions # map CommentsJson trees @ Failure msg # later
            \<and> length trees < length (take 10 submissions)
            \<and> int (length (filter (mentions lower coin_symbol) (concat trees))) < limit \<longrightarrow>
          (\<exists>s'. fetch_reddit_comments lower coin_symbol limit s = (Inr [], s')
            \<and> screen s' = screen s @ [StError [Lit ''Reddit error: '', Lit msg]]))"
proof (intro conjI impI)
  show "\<exists>comments s'. fetch_reddit_comments lower coin_symbol limit s = (Inr comments, s')
            \<and> int (length comments) \<le> limit
            \<and> (\<forall>c \<in> set comments. \<exists>before after. lower c = before @ lower coin_symbol @ after)"
    using assms by (rule fetch_reddit_comments_general)
next
  assume "pending s = HotJson submissions # map CommentsJson trees @ later
            \<and> trees \<noteq> [] \<and> length trees \<le> length (take 10 submissions)
            \<and> limit \<le> int (length (filter (mentions lower coin_symbol) (concat trees)))"
  then have "pending s = HotJson submissions # map CommentsJson trees @ later"
    and "trees \<noteq> []" and "length trees \<le> length (take 10 submissions)"
    and "limit \<le> int (length (filter (mentions lower coin_symbol) (concat trees)))"
    by blast+
  with assms show "\<exists>k s'. 1 \<le> k \<and> k \<le> length trees
            \<and> fetch_reddit_comments lower coin_symbol limit s =
                (Inr (take (nat limit) (filter (mentions lower coin_symbol) (concat trees))), s')
            \<and> length (take (nat limit) (filter (mentions lower coin_symbol) (concat trees))) = nat limit
            \<and> limit \<le> int (length (filter (mentions lower coin_symbol) (concat (take k trees))))
            \<and> (\<forall>j. 1 \<le> j \<and> j < k \<longrightarrow>
                  int (length (filter (mentions lower coin_symbol) (concat (take j trees)))) < limit)
            \<and> sent s' = sent s @ RedditHot # map RedditComments (take k (take 10 submissions))
            \<and> pending s' = map CommentsJson (drop k trees) @ later"
    by (rule fetch_reddit_comments_stops_early)
next
  assume "pending s = Failure msg # later"
  then show "\<exists>s'. fetch_reddit_comments lower coin_symbol limit s = (Inr [], s')
            \<and> screen s' = screen s @ [StError [Lit ''Reddit error: '', Lit msg]]"
    by (rule fetch_reddit_comments_listing_fails)
next
  assume "pending s = HotJson submissions # map CommentsJson trees @ Failure msg # later
            \<and> length trees < length (take 10 submissions)
            \<and> int (length (filter (mentions lower coin_symbol) (concat trees))) < limit"
  then have "pending s = HotJson submissions # map CommentsJson trees @ Failure msg # later"
    and "length trees < length (take 10 submissions)"
    and "int (length (filter (mentions lower coin_symbol) (concat trees))) < limit"
    by blast+
  then show "\<exists>s'. fetch_reddit_comments lower coin_symbol limit s = (Inr [], s')
            \<and> screen s' = screen s @ [StError [Lit ''Reddit error: '', Lit msg]]"
    by (rule fetch_reddit_comments_tree_fails)
qed

theorem fetch_reddit_comments_contract_witness:
  "fst (fetch_reddit_comments ascii_lower ''BTC'' 2
          (fresh 0 [HotJson [''t1'', ''t2'', ''t3''], CommentsJson [''btc up'', ''eth''],
             CommentsJson [''Btc down'', ''BTC flat''], CommentsJson [''btc again'']])) =
     Inr [''btc up'', ''Btc down'']
 \<and> sent (snd (fetch_reddit_comments ascii_lower ''BTC'' 2
          (fresh 0 [HotJson [''t1'', ''t2'', ''t3''], CommentsJson [''btc up'', ''eth''],
             CommentsJson [''Btc down'', ''BTC flat''], CommentsJson [''btc again'']]))) =
     [RedditHot, RedditComments ''t1'', RedditComments ''t2'']
 \<and> pending (snd (fetch_reddit_comments ascii_lower ''BTC'' 2
          (fresh 0 [HotJson [''t1'', ''t2'', ''t3''], CommentsJson [''btc up'', ''eth''],
             CommentsJson [''Btc down'', ''BTC flat''], CommentsJson [''btc again'']]))) =
     [CommentsJson [''btc again'']]
 \<and> fst (fetch_reddit_comments ascii_lower ''BTC'' 2
          (fresh 0 [HotJson [''t1'', ''t2''], CommentsJson [''btc up''], Failure ''503''])) =
     Inr []
 \<and> screen (snd (fetch_reddit_comments ascii_lower ''BTC'' 2
          (fresh 0 [HotJson [''t1'', ''t2''], CommentsJson [''btc up''], Failure ''503'']))) =
     [StError [Lit ''Reddit error: '', Lit ''503'']]"
proof -
  have limit: "(0::int) \<le> 2" by simp
  note contract =
    fetch_reddit_comments_contract
      [OF limit, where lower = ascii_lower and coin_symbol = "''BTC''"
         and s = "fresh 0 [HotJson [''t1'', ''t2'', ''t3''], CommentsJson [''btc up'', ''eth''],
             CommentsJson [''Btc down'', ''BTC flat''], CommentsJson [''btc again'']]"
         and submissions = "[''t1'', ''t2'', ''t3'']"
         and trees = "[[''btc up'', ''eth''], [''Btc down'', ''BTC flat'']]"
         and later = "[CommentsJson [''btc again'']]"]
  show ?thesis using contract by (simp add: run_reddit)
qed

subsection \<open>The decorated market-data operations\<close>

lemmas run_fetch = fetch_all_coins_def fetch_all_coins_body_def fetch_coin_info_def
  fetch_coin_info_body_def fetch_market_data_def fetch_market_data_body_def
  cache_data_def rate_limited_def retry_def request_def emit_def sleep_def
  Let_def

lemma fetch_all_coins_failed:
  assumes "coins_cache s () = None" and "pending s = Failure msg # later"
  shows "fst (fetch_all_coins s) = Inr []
       \<and> sent (snd (fetch_all_coins s)) = sent s @ [CoinsList]
       \<and> pending (snd (fetch_all_coins s)) = later
       \<and> screen (snd (fetch_all_coins s)) =
           screen s @ [StError [Lit ''Failed to fetch coins: '', Lit msg]]"
  using assms by (simp add: run_fetch)

lemma fetch_all_coins_loaded:
  assumes "coins_cache s () = None" and "pending s = CoinsJson coins # later"
  shows "\<exists>s'. fetch_all_coins s = (Inr (dict_of coins), s')
       \<and> sent s' = sent s @ [CoinsList] \<and> pending s' = later \<and> screen s' = screen s
       \<and> info_cache s' = info_cache s \<and> market_cache s' = market_cache s
       \<and> analyze_clicked s' = analyze_clicked s"
  using assms by (simp add: run_fetch)

lemma fetch_coin_info_failed:
  assumes "info_cache s coin_id = None" and "pending s = Failure msg # later"
  shows "\<exists>s'. fetch_coin_info coin_id s = (Inr None, s')
       \<and> sent s' = sent s @ [CoinDetail coin_id] \<and> pending s' = later
       \<and> market_cache s' = market_cache s"
  using assms by (simp add: run_fetch)

lemma fetch_market_data_failed:
  assumes "market_cache s (coin_id, days) = None" and "pending s = Failure msg # later"
  shows "\<exists>s'. fetch_market_data coin_id days s = (Inr ([], []), s')
       \<and> sent s' = sent s @ [MarketChart coin_id days] \<and> pending s' = later"
  using assms by (simp add: run_fetch)

lemma fetch_reddit_comments_failed:
  assumes "pending s = Failure msg # later"
  shows "\<exists>s'. fetch_reddit_comments lower coin_symbol limit s = (Inr [], s')
       \<and> sent s' = sent s @ [RedditHot] \<and> pending s' = later
       \<and> market_cache s' = market_cache s"
  using assms
  by (simp add: fetch_reddit_comments_def retry_def fetch_reddit_comments_body_def request_def
        emit_def)

text \<open>
  The decorator on an operation that raises: two failures followed by a success give the
  success after two pauses of four seconds; three failures give the last failure, wrapped,
  after the third attempt.
\<close>

lemma retry_on_raising_operation:
  "(func s = (Inl e1, s1) \<and> func (sleep 4 s1) = (Inl e2, s2) \<and> func (sleep 4 s2) = (Inr v, s3)
      \<longrightarrow> retry func s = (Inr v, s3))
 \<and> (func s = (Inl e1, s1) \<and> func (sleep 4 s1) = (Inl e2, s2) \<and> func (sleep 4 s2) = (Inl e3, s3)
      \<longrightarrow> retry func s = (Inl (RetryError e3), s3))"
  by (simp add: retry_def wait_exponential_def)

text \<open>
  Claim C1 does not hold of the code. The body of each cached operation catches the failure
  of the request and returns the degraded value (the empty mapping, \<^verbatim>\<open>None\<close>, the empty
  series); the cache stores that value as it stores any other. Here the first request
  fails and the service would answer the second one: the second call, one minute later,
  returns the remembered degraded value and sends no request.
\<close>

theorem failed_fetch_is_cached:
  "fst (fetch_all_coins
          ((snd (fetch_all_coins
                   (fresh 1000 [Failure ''503'', CoinsJson [(''bitcoin'', ''btc'')]])))
             \<lparr>clock := 1060\<rparr>)) = Inr []
 \<and> sent (snd (fetch_all_coins
          ((snd (fetch_all_coins
                   (fresh 1000 [Failure ''503'', CoinsJson [(''bitcoin'', ''btc'')]])))
             \<lparr>clock := 1060\<rparr>))) = [CoinsList]
 \<and> pending (snd (fetch_all_coins
          ((snd (fetch_all_coins
                   (fresh 1000 [Failure ''503'', CoinsJson [(''bitcoin'', ''btc'')]])))
             \<lparr>clock := 1060\<rparr>))) = [CoinsJson [(''bitcoin'', ''btc'')]]
 \<and> fst (fetch_coin_info ''bitcoin''
          ((snd (fetch_coin_info ''bitcoin''
                   (fresh 1000
                      [Failure ''503'',
                       InfoJson \<lparr>name = ''Bitcoin'', symbol = ''btc'', current_price = 50000,
                         price_change_percentage_24h = 1, market_cap = 1000000,
                         description = ''A currency'', homepage = [''bitcoin.org'']\<rparr>])))
             \<lparr>clock := 1060\<rparr>)) = Inr None
 \<and> sent (snd (fetch_coin_info ''bitcoin''
          ((snd (fetch_coin_info ''bitcoin''
                   (fresh 1000
                      [Failure ''503'',
                       InfoJson \<lparr>name = ''Bitcoin'', symbol = ''btc'', current_price = 50000,
                         price_change_percentage_24h = 1, market_cap = 1000000,
                         description = ''A currency'', homepage = [''bitcoin.org'']\<rparr>])))
             \<lparr>clock := 1060\<rparr>))) = [CoinDetail ''bitcoin'']
 \<and> fst (fetch_market_data ''bitcoin'' 7
          ((snd (fetch_market_data ''bitcoin'' 7
                   (fresh 1000 [Failure ''503'', ChartJson (Some [Point 1000 50])])))
             \<lparr>clock := 1060\<rparr>)) = Inr ([], [])
 \<and> sent (snd (fetch_market_data ''bitcoin'' 7
          ((snd (fetch_market_data ''bitcoin'' 7
                   (fresh 1000 [Failure ''503'', ChartJson (Some [Point 1000 50])])))
             \<lparr>clock := 1060\<rparr>))) = [MarketChart ''bitcoin'' 7]"
  by (simp add: run_fetch fresh_def)

text \<open>
  Claim C2 does not hold of the code. The wrapped bodies catch every failure of a request
  and return normally, so the retry decorator sees a success at the first attempt. Here the
  first two requests fail and the service would answer the third one: the decorated
  operations return the degraded value after one request and no pause. When every request
  fails, the one attempt returns the degraded value and no failure reaches the caller.
\<close>

theorem retry_never_fires:
  "fst (fetch_all_coins
          (fresh 1000 [Failure ''503'', Failure ''503'', CoinsJson [(''bitcoin'', ''btc'')]])) =
     Inr []
 \<and> sent (snd (fetch_all_coins
          (fresh 1000 [Failure ''503'', Failure ''503'', CoinsJson [(''bitcoin'', ''btc'')]]))) =
     [CoinsList]
 \<and> slept (snd (fetch_all_coins
          (fresh 1000 [Failure ''503'', Failure ''503'', CoinsJson [(''bitcoin'', ''btc'')]]))) =
     []
 \<and> pending (snd (fetch_all_coins
          (fresh 1000 [Failure ''503'', Failure ''503'', CoinsJson [(''bitcoin'', ''btc'')]]))) =
     [Failure ''503'', CoinsJson [(''bitcoin'', ''btc'')]]
 \<and> fst (fetch_reddit_comments ascii_lower ''btc'' 50
          (fresh 1000 [Failure ''503'', Failure ''503'', HotJson [''t1''],
             CommentsJson [''btc up'']])) = Inr []
 \<and> sent (snd (fetch_reddit_comments ascii_lower ''btc'' 50
          (fresh 1000 [Failure ''503'', Failure ''503'', HotJson [''t1''],
             CommentsJson [''btc up'']]))) = [RedditHot]
 \<and> slept (snd (fetch_reddit_comments ascii_lower ''btc'' 50
          (fresh 1000 [Failure ''503'', Failure ''503'', HotJson [''t1''],
             CommentsJson [''btc up'']]))) = []
 \<and> fst (fetch_all_coins (fresh 1000 [Failure ''503'', Failure ''503'', Failure ''503''])) =
     Inr []
 \<and> sent (snd (fetch_all_coins
          (fresh 1000 [Failure ''503'', Failure ''503'', Failure ''503'']))) = [CoinsList]"
  by (simp add: run_fetch fetch_reddit_comments_def fetch_reddit_comments_body_def fresh_def)

subsection \<open>The main flow\<close>

lemma selectbox_offered: "options \<noteq> [] \<Longrightarrow> selectbox options choice \<in> set options"
  by (simp add: selectbox_def)

lemma map_of_offered: "k \<in> set (map fst coins) \<Longrightarrow> \<exists>v. map_of coins k = Some v"
  by (metis list.set_map map_of_eq_None_iff not_Some_eq)

lemma main_halts_without_coins:
  assumes "fst (fetch_all_coins
             (emit (StHeader ''Coin Selector'') (emit (StMarkdown ''glass-card'')
               (emit (StMarkdown ''hero'') (emit (StMarkdown ''gradient-bg'') s))))) = Inr []"
  shows "main polarity mean lower inp s =
           (Stopped,
            emit (StError [Lit ''Failed to load cryptocurrency list''])
              (snd (fetch_all_coins
                 (emit (StHeader ''Coin Selector'') (emit (StMarkdown ''glass-card'')
                   (emit (StMarkdown ''hero'') (emit (StMarkdown ''gradient-bg'') s)))))))"
proof -
  let ?s1 = "emit (StHeader ''Coin Selector'') (emit (StMarkdown ''glass-card'')
               (emit (StMarkdown ''hero'') (emit (StMarkdown ''gradient-bg'') s)))"
  obtain s2 where "fetch_all_coins ?s1 = (Inr [], s2)"
    using assms by (cases "fetch_all_coins ?s1") simp
  then show ?thesis by (simp add: main_def Let_def)
qed

lemma main_stops:
  assumes "coins_cache s () = None" and "pending s = Failure msg # later"
  shows "fst (main polarity mean lower inp s) = Stopped
       \<and> sent (snd (main polarity mean lower inp s)) = sent s @ [CoinsList]
       \<and> pending (snd (main polarity mean lower inp s)) = later
       \<and> screen (snd (main polarity mean lower inp s)) =
           screen s @ [StMarkdown ''gradient-bg'', StMarkdown ''hero'', StMarkdown ''glass-card'',
             StHeader ''Coin Selector'', StError [Lit ''Failed to fetch coins: '', Lit msg],
             StError [Lit ''Failed to load cryptocurrency list'']]"
proof -
  let ?s1 = "emit (StHeader ''Coin Selector'') (emit (StMarkdown ''glass-card'')
               (emit (StMarkdown ''hero'') (emit (StMarkdown ''gradient-bg'') s)))"
  have c: "coins_cache ?s1 () = None" and p: "pending ?s1 = Failure msg # later"
    using assms by (simp_all add: emit_def)
  note f = fetch_all_coins_failed [OF c p]
  have "main polarity mean lower inp s =
      (Stopped, emit (StError [Lit ''Failed to load cryptocurrency list'']) (snd (fetch_all_coins ?s1)))"
    using f by (intro main_halts_without_coins) simp
  then show ?thesis using f by (simp add: emit_def)
qed

lemma overview_card_failed:
  assumes "info_cache s coin_id = None" and "pending s = Failure msg # later"
  shows "\<exists>s'. overview_card coin_id s = (Inr None, s')
       \<and> sent s' = sent s @ [CoinDetail coin_id] \<and> pending s' = later
       \<and> market_cache s' = market_cache s"
proof -
  let ?s1 = "emit (StHeader ''Coin Overview'') (emit (StMarkdown ''glass-card analysis'') s)"
  have "info_cache ?s1 coin_id = None" "pending ?s1 = Failure msg # later"
    using assms by (simp_all add: emit_def)
  from fetch_coin_info_failed [OF this] obtain s' where
    "fetch_coin_info coin_id ?s1 = (Inr None, s')" "sent s' = sent ?s1 @ [CoinDetail coin_id]"
    "pending s' = later" "market_cache s' = market_cache ?s1"
    by blast
  then show ?thesis by (simp add: overview_card_def emit_def)
qed

lemma sentiment_card_failed:
  assumes "pending s = Failure msg # later"
  shows "\<exists>s'. sentiment_card polarity mean lower coin_symbol s = (Inr (), s')
       \<and> sent s' = sent s @ [RedditHot] \<and> pending s' = later
       \<and> market_cache s' = market_cache s"
proof -
  let ?s1 = "emit (StHeader ''Sentiment Analysis'') (emit (StMarkdown ''glass-card'') s)"
  have "pending ?s1 = Failure msg # later"
    using assms by (simp add: emit_def)
  from fetch_reddit_comments_failed [OF this, where lower = lower and coin_symbol = coin_symbol and limit = 50] obtain s' where
    "fetch_reddit_comments lower coin_symbol 50 ?s1 = (Inr [], s')" "sent s' = sent ?s1 @ [RedditHot]"
    "pending s' = later" "market_cache s' = market_cache ?s1"
    by blast
  then show ?thesis by (simp add: sentiment_card_def emit_def)
qed

lemma market_card_failed:
  assumes "market_cache s (coin_id, time_mapping time_period) = None"
    and "pending s = Failure msg # later"
  shows "\<exists>s'. market_card coin_id coin_symbol coin_info time_period target_price s = (Inr (), s')
       \<and> sent s' = sent s @ [MarketChart coin_id (time_mapping time_period)] \<and> pending s' = later"
proof -
  let ?s1 = "emit (StHeader ''Market Data'') (emit (StMarkdown ''glass-card market'') s)"
  have "market_cache ?s1 (coin_id, time_mapping time_period) = None"
    "pending ?s1 = Failure msg # later"
    using assms by (simp_all add: emit_def)
  from fetch_market_data_failed [OF this] obtain s' where
    "fetch_market_data coin_id (time_mapping time_period) ?s1 = (Inr ([], []), s')"
    "sent s' = sent ?s1 @ [MarketChart coin_id (time_mapping time_period)]"
    "pending s' = later"
    by blast
  then show ?thesis by (simp add: market_card_def emit_def)
qed

lemma main_with_coins:
  assumes "fetch_all_coins
             (emit (StHeader ''Coin Selector'') (emit (StMarkdown ''glass-card'')
               (emit (StMarkdown ''hero'') (emit (StMarkdown ''gradient-bg'') s)))) =
           (Inr coins, s2)"
    and "coins \<noteq> []"
    and "s3 = emit (StMarkdown ''/div'')
               (if analyze_btn inp then s2\<lparr>analyze_clicked := True\<rparr> else s2)"
    and "selected_coin = selectbox (map fst coins) (coin_select inp)"
  shows "main polarity mean lower inp s =
      (if analyze_clicked s3 then
         (case map_of coins selected_coin of
            None \<Rightarrow> (Raised (KeyError selected_coin), s3)
          | Some coin_symbol \<Rightarrow>
              (case overview_card selected_coin s3 of
                 (Inl e, s) \<Rightarrow> (Raised e, s)
               | (Inr coin_info, s) \<Rightarrow>
                   (case sentiment_card polarity mean lower coin_symbol s of
                      (Inl e, s) \<Rightarrow> (Raised e, s)
                    | (Inr u, s) \<Rightarrow>
                        (case market_card selected_coin coin_symbol coin_info
                                (time_select inp) (price_alert inp) s of
                           (Inl e, s) \<Rightarrow> (Raised e, s)
                         | (Inr u, s) \<Rightarrow> footer s))))
       else footer s3)"
  unfolding main_def Let_def assms(1) assms(3) assms(4) using assms(2)
  by (simp only: prod.case sum.case if_False)


lemma main_continues:
  assumes cache: "coins_cache s () = None"
    and coins: "dict_of coins \<noteq> []"
    and clicked: "analyze_btn inp \<or> analyze_clicked s"
    and sel: "selected_coin = selectbox (map fst (dict_of coins)) (coin_select inp)"
    and info: "info_cache s selected_coin = None"
    and market: "market_cache s (selected_coin, time_mapping (time_select inp)) = None"
    and replies: "pending s = CoinsJson coins # Failure m1 # Failure m2 # Failure m3 # later"
  shows "fst (main polarity mean lower inp s) = Finished
       \<and> sent (snd (main polarity mean lower inp s)) =
           sent s @ [CoinsList, CoinDetail selected_coin, RedditHot,
                     MarketChart selected_coin (time_mapping (time_select inp))]
       \<and> pending (snd (main polarity mean lower inp s)) = later"
proof -
  let ?s1 = "emit (StHeader ''Coin Selector'') (emit (StMarkdown ''glass-card'')
               (emit (StMarkdown ''hero'') (emit (StMarkdown ''gradient-bg'') s)))"
  have "coins_cache ?s1 () = None"
    "pending ?s1 = CoinsJson coins # Failure m1 # Failure m2 # Failure m3 # later"
    using cache replies by (simp_all add: emit_def)
  from fetch_all_coins_loaded [OF this] obtain s2 where loaded:
    "fetch_all_coins ?s1 = (Inr (dict_of coins), s2)
       \<and> sent s2 = sent ?s1 @ [CoinsList]
       \<and> pending s2 = Failure m1 # Failure m2 # Failure m3 # later \<and> screen s2 = screen ?s1
       \<and> info_cache s2 = info_cache ?s1 \<and> market_cache s2 = market_cache ?s1
       \<and> analyze_clicked s2 = analyze_clicked ?s1" ..
  then have f: "fetch_all_coins ?s1 = (Inr (dict_of coins), s2)"
    and s2: "sent s2 = sent ?s1 @ [CoinsList]"
      "pending s2 = Failure m1 # Failure m2 # Failure m3 # later"
      "info_cache s2 = info_cache ?s1" "market_cache s2 = market_cache ?s1"
      "analyze_clicked s2 = analyze_clicked ?s1"
    by simp_all
  define s3 where "s3 = emit (StMarkdown ''/div'')
               (if analyze_btn inp then s2\<lparr>analyze_clicked := True\<rparr> else s2)"
  have click3: "analyze_clicked s3" using clicked s2 by (auto simp: s3_def emit_def)
  have s3: "sent s3 = sent s2" "pending s3 = pending s2" "info_cache s3 = info_cache s2"
    "market_cache s3 = market_cache s2"
    by (simp_all add: s3_def emit_def)
  have ne: "map fst (dict_of coins) \<noteq> []" using coins by simp
  have "selected_coin \<in> set (map fst (dict_of coins))"
    unfolding sel by (rule selectbox_offered [OF ne])
  from map_of_offered [OF this] obtain coin_symbol where
    sym: "map_of (dict_of coins) selected_coin = Some coin_symbol" ..
  have "info_cache s3 selected_coin = None"
    "pending s3 = Failure m1 # Failure m2 # Failure m3 # later"
    using info s2 s3 by (simp_all add: emit_def)
  from overview_card_failed [OF this] obtain s4 where card1:
    "overview_card selected_coin s3 = (Inr None, s4)
       \<and> sent s4 = sent s3 @ [CoinDetail selected_coin]
       \<and> pending s4 = Failure m2 # Failure m3 # later
       \<and> market_cache s4 = market_cache s3" ..
  then have o: "overview_card selected_coin s3 = (Inr None, s4)"
    and s4: "sent s4 = sent s3 @ [CoinDetail selected_coin]"
      "pending s4 = Failure m2 # Failure m3 # later" "market_cache s4 = market_cache s3"
    by simp_all
  from sentiment_card_failed [OF s4(2), where polarity = polarity and mean = mean and lower = lower
      and coin_symbol = coin_symbol] obtain s5 where card2:
    "sentiment_card polarity mean lower coin_symbol s4 = (Inr (), s5)
       \<and> sent s5 = sent s4 @ [RedditHot] \<and> pending s5 = Failure m3 # later
       \<and> market_cache s5 = market_cache s4" ..
  then have t: "sentiment_card polarity mean lower coin_symbol s4 = (Inr (), s5)"
    and s5: "sent s5 = sent s4 @ [RedditHot]" "pending s5 = Failure m3 # later"
      "market_cache s5 = market_cache s4"
    by simp_all
  have "market_cache s5 (selected_coin, time_mapping (time_select inp)) = None"
    using market s5 s4 s3 s2 by (simp add: emit_def)
  from market_card_failed [OF this s5(2), of coin_symbol None "price_alert inp"] obtain s6 where
    card3: "market_card selected_coin coin_symbol None (time_select inp) (price_alert inp) s5 =
          (Inr (), s6)
       \<and> sent s6 = sent s5 @ [MarketChart selected_coin (time_mapping (time_select inp))]
       \<and> pending s6 = later" ..
  then have m: "market_card selected_coin coin_symbol None (time_select inp) (price_alert inp) s5 =
          (Inr (), s6)"
    and s6: "sent s6 = sent s5 @ [MarketChart selected_coin (time_mapping (time_select inp))]"
      "pending s6 = later"
    by simp_all
  have "main polarity mean lower inp s = footer s6"
    unfolding main_with_coins [OF f coins s3_def sel]
    using click3 by (simp only: sym o t m if_True option.case prod.case sum.case)
  then show ?thesis
    using s6 s5 s4 s3 s2 by (simp add: footer_def emit_def)
qed

lemma main_never_stops_with_coins:
  assumes "fst (fetch_all_coins
             (emit (StHeader ''Coin Selector'') (emit (StMarkdown ''glass-card'')
               (emit (StMarkdown ''hero'') (emit (StMarkdown ''gradient-bg'') s))))) = Inr coins"
    and "coins \<noteq> []"
  shows "fst (main polarity mean lower inp s) \<noteq> Stopped"
proof -
  let ?s1 = "emit (StHeader ''Coin Selector'') (emit (StMarkdown ''glass-card'')
               (emit (StMarkdown ''hero'') (emit (StMarkdown ''gradient-bg'') s)))"
  obtain s2 where f: "fetch_all_coins ?s1 = (Inr coins, s2)"
    using assms(1) by (cases "fetch_all_coins ?s1") simp
  define s3 where "s3 = emit (StMarkdown ''/div'')
               (if analyze_btn inp then s2\<lparr>analyze_clicked := True\<rparr> else s2)"
  define selected_coin where "selected_coin = selectbox (map fst coins) (coin_select inp)"
  show ?thesis
    unfolding main_with_coins [OF f assms(2) s3_def selected_coin_def]
    by (simp add: footer_def split: option.split prod.split sum.split)
qed

text \<open>
  What holds of the flow. When the coin list cannot be fetched, \<^verbatim>\<open>main\<close> shows the error and
  stops: from a state without a cached coin list whose next reply is a failure, the run ends
  at \<^verbatim>\<open>st.stop()\<close> after the one request for the coin list, with the two error messages last
  on the page; more generally, whenever \<^verbatim>\<open>fetch_all_coins\<close> yields the empty mapping the run
  ends there. With a coin list that is not empty no run ends at \<^verbatim>\<open>st.stop()\<close>; and when the
  requests for the coin information, the discussion and the price series all fail, the run
  sends each of these requests in turn and ends at its last line.
\<close>

lemma halts_without_coin_list:
  "(coins_cache s () = None \<and> pending s = Failure msg # later \<longrightarrow>
      fst (main polarity mean lower inp s) = Stopped
      \<and> sent (snd (main polarity mean lower inp s)) = sent s @ [CoinsList]
      \<and> pending (snd (main polarity mean lower inp s)) = later
      \<and> screen (snd (main polarity mean lower inp s)) =
          screen s @ [StMarkdown ''gradient-bg'', StMarkdown ''hero'', StMarkdown ''glass-card'',
            StHeader ''Coin Selector'', StError [Lit ''Failed to fetch coins: '', Lit msg],
            StError [Lit ''Failed to load cryptocurrency list'']])
 \<and> (fst (fetch_all_coins
           (emit (StHeader ''Coin Selector'') (emit (StMarkdown ''glass-card'')
             (emit (StMarkdown ''hero'') (emit (StMarkdown ''gradient-bg'') s))))) = Inr [] \<longrightarrow>
      main polarity mean lower inp s =
        (Stopped,
         emit (StError [Lit ''Failed to load cryptocurrency list''])
           (snd (fetch_all_coins
              (emit (StHeader ''Coin Selector'') (emit (StMarkdown ''glass-card'')
                (emit (StMarkdown ''hero'') (emit (StMarkdown ''gradient-bg'') s))))))))
 \<and> (fst (fetch_all_coins
           (emit (StHeader ''Coin Selector'') (emit (StMarkdown ''glass-card'')
             (emit (StMarkdown ''hero'') (emit (StMarkdown ''gradient-bg'') s))))) = Inr listing
      \<and> listing \<noteq> [] \<longrightarrow>
      fst (main polarity mean lower inp s) \<noteq> Stopped)
 \<and> (coins_cache s () = None \<and> dict_of coins \<noteq> []
      \<and> (analyze_btn inp \<or> analyze_clicked s)
      \<and> info_cache s (selectbox (map fst (dict_of coins)) (coin_select inp)) = None
      \<and> market_cache s (selectbox (map fst (dict_of coins)) (coin_select inp),
                         time_mapping (time_select inp)) = None
      \<and> pending s = CoinsJson coins # Failure m1 # Failure m2 # Failure m3 # later \<longrightarrow>
      fst (main polarity mean lower inp s) = Finished
      \<and> sent (snd (main polarity mean lower inp s)) =
          sent s @ [CoinsList,
                    CoinDetail (selectbox (map fst (dict_of coins)) (coin_select inp)),
                    RedditHot,
                    MarketChart (selectbox (map fst (dict_of coins)) (coin_select inp))
                      (time_mapping (time_select inp))]
      \<and> pending (snd (main polarity mean lower inp s)) = later)"
proof (intro conjI impI)
  assume "coins_cache s () = None \<and> pending s = Failure msg # later"
  then have "coins_cache s () = None" and "pending s = Failure msg # later" by simp_all
  from main_stops [OF this, where polarity = polarity and mean = mean and lower = lower and inp = inp]
  show "fst (main polarity mean lower inp s) = Stopped" 
    and "sent (snd (main polarity mean lower inp s)) = sent s @ [CoinsList]"
    and "pending (snd (main polarity mean lower inp s)) = later"
    and "screen (snd (main polarity mean lower inp s)) =
          screen s @ [StMarkdown ''gradient-bg'', StMarkdown ''hero'', StMarkdown ''glass-card'',
            StHeader ''Coin Selector'', StError [Lit ''Failed to fetch coins: '', Lit msg],
            StError [Lit ''Failed to load cryptocurrency list'']]"
    by simp_all
next
  assume "fst (fetch_all_coins
           (emit (StHeader ''Coin Selector'') (emit (StMarkdown ''glass-card'')
             (emit (StMarkdown ''hero'') (emit (StMarkdown ''gradient-bg'') s))))) = Inr []"
  then show "main polarity mean lower inp s =
        (Stopped,
         emit (StError [Lit ''Failed to load cryptocurrency list''])
           (snd (fetch_all_coins
              (emit (StHeader ''Coin Selector'') (emit (StMarkdown ''glass-card'')
                (emit (StMarkdown ''hero'') (emit (StMarkdown ''gradient-bg'') s)))))))"
    by (rule main_halts_without_coins)
next
  assume "fst (fetch_all_coins
           (emit (StHeader ''Coin Selector'') (emit (StMarkdown ''glass-card'')
             (emit (StMarkdown ''hero'') (emit (StMarkdown ''gradient-bg'') s))))) = Inr listing
      \<and> listing \<noteq> []"
  then have "fst (fetch_all_coins
           (emit (StHeader ''Coin Selector'') (emit (StMarkdown ''glass-card'')
             (emit (StMarkdown ''hero'') (emit (StMarkdown ''gradient-bg'') s))))) = Inr listing"
    and "listing \<noteq> []"
    by simp_all
  then show "fst (main polarity mean lower inp s) \<noteq> Stopped"
    by (rule main_never_stops_with_coins)
next
  assume a: "coins_cache s () = None \<and> dict_of coins \<noteq> []
      \<and> (analyze_btn inp \<or> analyze_clicked s)
      \<and> info_cache s (selectbox (map fst (dict_of coins)) (coin_select inp)) = None
      \<and> market_cache s (selectbox (map fst (dict_of coins)) (coin_select inp),
                         time_mapping (time_select inp)) = None
      \<and> pending s = CoinsJson coins # Failure m1 # Failure m2 # Failure m3 # later"
  have "fst (main polarity mean lower inp s) = Finished
       \<and> sent (snd (main polarity mean lower inp s)) =
          sent s @ [CoinsList,
                    CoinDetail (selectbox (map fst (dict_of coins)) (coin_select inp)),
                    RedditHot,
                    MarketChart (selectbox (map fst (dict_of coins)) (coin_select inp))
                      (time_mapping (time_select inp))]
       \<and> pending (snd (main polarity mean lower inp s)) = later"
  proof (rule main_continues)
    show "coins_cache s () = None" using a by simp
    show "dict_of coins \<noteq> []" using a by simp
    show "analyze_btn inp \<or> analyze_clicked s" using a by simp
    show "selectbox (map fst (dict_of coins)) (coin_select inp) =
          selectbox (map fst (dict_of coins)) (coin_select inp)" by (rule refl)
    show "info_cache s (selectbox (map fst (dict_of coins)) (coin_select inp)) = None"
      using a by simp
    show "market_cache s (selectbox (map fst (dict_of coins)) (coin_select inp),
                         time_mapping (time_select inp)) = None"
      using a by simp
    show "pending s = CoinsJson coins # Failure m1 # Failure m2 # Failure m3 # later"
      using a by simp
  qed
  then show "fst (main polarity mean lower inp s) = Finished"
    and "sent (snd (main polarity mean lower inp s)) =
          sent s @ [CoinsList,
                    CoinDetail (selectbox (map fst (dict_of coins)) (coin_select inp)),
                    RedditHot,
                    MarketChart (selectbox (map fst (dict_of coins)) (coin_select inp))
                      (time_mapping (time_select inp))]"
    and "pending (snd (main polarity mean lower inp s)) = later"
    by simp_all
qed

lemmas run_main = main_def overview_card_def sentiment_card_def market_card_def footer_def
  selectbox_def dict_of_def run_fetch run_reddit

text \<open>
  Claim C8 does not hold of the code. The failure of the coin list does halt the run with a
  visible error, but a failure of another market-data operation does not always let the flow
  continue. Here the coin list arrives, the request for the coin information fails (so
  \<^verbatim>\<open>fetch_coin_info\<close> degrades to \<^verbatim>\<open>None\<close>), no comment is found and the price series arrives
  with one point: the chart is drawn with \<^verbatim>\<open>coin_info['name']\<close> (line 585), which is not
  guarded as the overview card is (line 554), and the run ends with a \<^verbatim>\<open>TypeError\<close>
  after the four requests, the market card left open and the footer never written.
\<close>

theorem absent_coin_info_breaks_the_flow:
  "fst (main (\<lambda>c. 0) mean_left_to_right ascii_lower
          \<lparr>coin_select = ''bitcoin'', time_select = Days7, price_alert = 0, analyze_btn = True\<rparr>
          (fresh 1000 [CoinsJson [(''bitcoin'', ''btc'')], Failure ''503'', HotJson [],
             ChartJson (Some [Point 1000 50])])) =
     Raised (TypeError ''NoneType object is not subscriptable'')
 \<and> sent (snd (main (\<lambda>c. 0) mean_left_to_right ascii_lower
          \<lparr>coin_select = ''bitcoin'', time_select = Days7, price_alert = 0, analyze_btn = True\<rparr>
          (fresh 1000 [CoinsJson [(''bitcoin'', ''btc'')], Failure ''503'', HotJson [],
             ChartJson (Some [Point 1000 50])]))) =
     [CoinsList, CoinDetail ''bitcoin'', RedditHot, MarketChart ''bitcoin'' 7]
 \<and> pending (snd (main (\<lambda>c. 0) mean_left_to_right ascii_lower
          \<lparr>coin_select = ''bitcoin'', time_select = Days7, price_alert = 0, analyze_btn = True\<rparr>
          (fresh 1000 [CoinsJson [(''bitcoin'', ''btc'')], Failure ''503'', HotJson [],
             ChartJson (Some [Point 1000 50])]))) = []
 \<and> last (screen (snd (main (\<lambda>c. 0) mean_left_to_right ascii_lower
          \<lparr>coin_select = ''bitcoin'', time_select = Days7, price_alert = 0, analyze_btn = True\<rparr>
          (fresh 1000 [CoinsJson [(''bitcoin'', ''btc'')], Failure ''503'', HotJson [],
             ChartJson (Some [Point 1000 50])])))) = StHeader ''Market Data''"
  by (simp add: run_main)

subsection \<open>The empty comment list\<close>

text \<open>
  Claim C3, as stated, fails: \<^verbatim>\<open>analyze_comments\<close> returns the bare number 0 for the empty
  list and leaves the state as it was. Nothing else is reported: the value is the one
  returned for a comment of polarity 0, and the advisory step does the same with both.
\<close>

theorem empty_comments_no_flag_counterexample:
  "analyze_comments (\<lambda>c. 0) mean_left_to_right [] (fresh 0 []) = (0, fresh 0 [])
 \<and> fst (analyze_comments (\<lambda>c. 0) mean_left_to_right [] (fresh 0 [])) =
     fst (analyze_comments (\<lambda>c. 0) mean_left_to_right [''hodl''] (fresh 0 []))
 \<and> provide_investment_advice
       (fst (analyze_comments (\<lambda>c. 0) mean_left_to_right [] (fresh 0 []))) (fresh 0 []) =
     provide_investment_advice
       (fst (analyze_comments (\<lambda>c. 0) mean_left_to_right [''hodl''] (fresh 0 []))) (fresh 0 [])"
  by (simp add: analyze_comments_def mean_left_to_right_def float_sum_left_def float_div_def
        round_float64_def Let_def)

text \<open>
  Claim C3, amended. Given an empty sequence of comments, \<^verbatim>\<open>analyze_comments\<close> returns exactly
  0, without an error, and shows nothing; it reports no flag. The empty case is told apart
  by the caller: when the fetch yields no comments, the sentiment card calls neither the
  aggregator nor the advisory step and shows the warning that no comments were found.
\<close>

theorem empty_comments_score_zero:
  "analyze_comments polarity mean [] s = (0, s)
 \<and> (fst (fetch_reddit_comments lower coin_symbol 50
           (emit (StHeader ''Sentiment Analysis'') (emit (StMarkdown ''glass-card'') s))) = Inr []
      \<longrightarrow>
      sentiment_card polarity mean lower coin_symbol s =
        (Inr (),
         emit (StMarkdown ''/div'')
           (emit (StWarning [Lit ''No recent Reddit comments found mentioning '',
                             Lit (upper coin_symbol)])
              (snd (fetch_reddit_comments lower coin_symbol 50
                 (emit (StHeader ''Sentiment Analysis'') (emit (StMarkdown ''glass-card'') s)))))))"
proof (intro conjI impI)
  show "analyze_comments polarity mean [] s = (0, s)" by (simp add: analyze_comments_def)
next
  let ?s1 = "emit (StHeader ''Sentiment Analysis'') (emit (StMarkdown ''glass-card'') s)"
  assume "fst (fetch_reddit_comments lower coin_symbol 50 ?s1) = Inr []"
  then obtain s2 where "fetch_reddit_comments lower coin_symbol 50 ?s1 = (Inr [], s2)"
    by (cases "fetch_reddit_comments lower coin_symbol 50 ?s1") simp
  then show "sentiment_card polarity mean lower coin_symbol s =
        (Inr (),
         emit (StMarkdown ''/div'')
           (emit (StWarning [Lit ''No recent Reddit comments found mentioning '',
                             Lit (upper coin_symbol)])
              (snd (fetch_reddit_comments lower coin_symbol 50 ?s1))))"
    by (simp add: sentiment_card_def)
qed

theorem empty_comments_score_zero_witness:
  "analyze_comments (\<lambda>c. 0) mean_left_to_right [] (fresh 0 []) = (0, fresh 0 [])
 \<and> fst (sentiment_card (\<lambda>c. 0) mean_left_to_right ascii_lower ''btc''
          (fresh 0 [HotJson []])) = Inr ()
 \<and> screen (snd (sentiment_card (\<lambda>c. 0) mean_left_to_right ascii_lower ''btc''
          (fresh 0 [HotJson []]))) =
     [StMarkdown ''glass-card'', StHeader ''Sentiment Analysis'',
      StWarning [Lit ''No recent Reddit comments found mentioning '', Lit ''BTC''],
      StMarkdown ''/div'']"
  using empty_comments_score_zero
          [where polarity = "\<lambda>c. 0" and mean = mean_left_to_right and s = "fresh 0 []"
             and lower = ascii_lower and coin_symbol = "''btc''"]
        empty_comments_score_zero
          [where polarity = "\<lambda>c. 0" and mean = mean_left_to_right
             and s = "fresh 0 [HotJson []]" and lower = ascii_lower and coin_symbol = "''btc''"]
  by (simp add: run_reddit)

end
